theory Spec2Isabelle
  imports Main "HOL-Library.Sublist" "HOL-Library.Char_ord" "HOL-Library.List_Lexorder"
begin

section \<open>Python values and exceptions\<close>

text \<open>
  The scraper is a Python script (\<^verbatim>\<open>src/doctolib_scraper.py\<close>) that works on
  decoded JSON documents, on strings, and on a handful of collaborators: the browser
  driver, the HTTP client, the SMTP client, the clock and the logger. Every exception
  the script can raise is a value of \<open>exn\<close>; a computation that may raise returns
  \<open>exn + 'a\<close> with \<open>Inl\<close> for the exception.
\<close>

datatype exn =
    KeyError | TypeError | IndexError | AttributeError | ValueError
  | SystemExit | OtherError string

text \<open>
  A decoded JSON document, as \<^verbatim>\<open>json.loads\<close> and \<^verbatim>\<open>Response.json()\<close> return it:
  \<^verbatim>\<open>None\<close>, \<^verbatim>\<open>bool\<close>, \<^verbatim>\<open>int\<close>, \<^verbatim>\<open>str\<close>, \<^verbatim>\<open>list\<close> and \<^verbatim>\<open>dict\<close> (floating point
  numbers are left out). A \<^verbatim>\<open>dict\<close> is its items in insertion order; where a key is
  listed twice the first binding is the dict's. A character of a \<open>string\<close> stands for
  one code point of the Python \<^verbatim>\<open>str\<close>.
\<close>

datatype json =
    JNull | JBool bool | JInt int | JStr string
  | JList "json list" | JObj "(string \<times> json) list"

text \<open>
  The components of the tuples that \<^verbatim>\<open>main\<close> appends to \<^verbatim>\<open>imminent_slots\<close>: the set
  displays \<^verbatim>\<open>{date_obj.strftime(...)}\<close> and \<^verbatim>\<open>{time_obj.strftime(...)}\<close> build a \<^verbatim>\<open>set\<close> of
  one string each, \<^verbatim>\<open>doctor_name\<close> is a \<^verbatim>\<open>str\<close>. A tuple is the list of its components.
\<close>

datatype pyval = PStr string | PSet "string set"

definition ebind :: "exn + 'a \<Rightarrow> ('a \<Rightarrow> exn + 'b) \<Rightarrow> exn + 'b" where
  "ebind m f = (case m of Inl e \<Rightarrow> Inl e | Inr v \<Rightarrow> f v)"

subsection \<open>Strings\<close>

text \<open>\<^verbatim>\<open>p in s\<close> on two strings: \<open>p\<close> occurs in \<open>s\<close> as a contiguous substring.\<close>

fun is_substring :: "string \<Rightarrow> string \<Rightarrow> bool" where
  "is_substring p [] = (p = [])"
| "is_substring p (c # cs) = (prefix p (c # cs) \<or> is_substring p cs)"

text \<open>\<^verbatim>\<open>s.split(sep)\<close> for a separator of one character.\<close>

fun split_on :: "char \<Rightarrow> string \<Rightarrow> string list" where
  "split_on sep [] = [[]]"
| "split_on sep (c # cs) =
     (if c = sep then [] # split_on sep cs
      else (case split_on sep cs of [] \<Rightarrow> [[c]] | w # ws \<Rightarrow> (c # w) # ws))"

text \<open>\<^verbatim>\<open>sep.join(xs)\<close>.\<close>

fun py_join :: "string \<Rightarrow> string list \<Rightarrow> string" where
  "py_join sep [] = []"
| "py_join sep [x] = x"
| "py_join sep (x # y # ys) = x @ sep @ py_join sep (y # ys)"

text \<open>
  \<^verbatim>\<open>s.center(width, fill)\<close>, as CPython pads: the left margin is
  \<^verbatim>\<open>marg / 2 + (marg & width & 1)\<close>.
\<close>

definition py_center :: "nat \<Rightarrow> char \<Rightarrow> string \<Rightarrow> string" where
  "py_center width fill s =
     (if width \<le> length s then s
      else (let marg = width - length s;
                left = marg div 2 + (if odd marg \<and> odd width then 1 else 0)
            in replicate left fill @ s @ replicate (marg - left) fill))"

text \<open>\<^verbatim>\<open>str(n)\<close> for an \<^verbatim>\<open>int\<close>.\<close>

definition digit_char :: "nat \<Rightarrow> char" where
  "digit_char d = ''0123456789'' ! d"

fun show_nat :: "nat \<Rightarrow> string" where
  "show_nat n =
     (if n < 10 then [digit_char n] else show_nat (n div 10) @ [digit_char (n mod 10)])"

definition show_int :: "int \<Rightarrow> string" where
  "show_int i = (if i < 0 then CHR ''-'' # show_nat (nat (- i)) else show_nat (nat i))"

text \<open>
  \<^verbatim>\<open>re.search(r"\d+", s)\<close>: the first maximal run of decimal digits of \<open>s\<close>, or
  \<^verbatim>\<open>None\<close> when \<open>s\<close> has no digit.
\<close>

definition is_digit :: "char \<Rightarrow> bool" where
  "is_digit c = (c \<in> set ''0123456789'')"

definition re_search_digits :: "string \<Rightarrow> string option" where
  "re_search_digits s =
     (case dropWhile (\<lambda>c. \<not> is_digit c) s of
        [] \<Rightarrow> None
      | d # r \<Rightarrow> Some (takeWhile is_digit (d # r)))"

subsection \<open>Operations on decoded JSON\<close>

fun keys_of :: "(string \<times> json) list \<Rightarrow> string list" where
  "keys_of [] = []"
| "keys_of ((k, v) # kvs) = k # filter (\<lambda>k'. k' \<noteq> k) (keys_of kvs)"

text \<open>\<^verbatim>\<open>x[k]\<close> for a string key \<open>k\<close>.\<close>

definition py_getitem :: "json \<Rightarrow> string \<Rightarrow> exn + json" where
  "py_getitem x k =
     (case x of
        JObj kvs \<Rightarrow> (case map_of kvs k of None \<Rightarrow> Inl KeyError | Some v \<Rightarrow> Inr v)
      | _ \<Rightarrow> Inl TypeError)"

text \<open>\<^verbatim>\<open>x[0]\<close>. The keys of a decoded JSON object are strings, so \<^verbatim>\<open>0\<close> is never one.\<close>

definition py_getitem0 :: "json \<Rightarrow> exn + json" where
  "py_getitem0 x =
     (case x of
        JList vs \<Rightarrow> (case vs of [] \<Rightarrow> Inl IndexError | v # _ \<Rightarrow> Inr v)
      | JStr s \<Rightarrow> (case s of [] \<Rightarrow> Inl IndexError | c # _ \<Rightarrow> Inr (JStr [c]))
      | JObj kvs \<Rightarrow> Inl KeyError
      | _ \<Rightarrow> Inl TypeError)"

text \<open>\<^verbatim>\<open>k in x\<close> for a string \<open>k\<close>.\<close>

definition py_contains :: "string \<Rightarrow> json \<Rightarrow> exn + bool" where
  "py_contains k x =
     (case x of
        JObj kvs \<Rightarrow> Inr (map_of kvs k \<noteq> None)
      | JList vs \<Rightarrow> Inr (JStr k \<in> set vs)
      | JStr s \<Rightarrow> Inr (is_substring k s)
      | _ \<Rightarrow> Inl TypeError)"

text \<open>\<^verbatim>\<open>x > 0\<close>.\<close>

definition py_gt0 :: "json \<Rightarrow> exn + bool" where
  "py_gt0 x =
     (case x of JInt n \<Rightarrow> Inr (0 < n) | JBool b \<Rightarrow> Inr b | _ \<Rightarrow> Inl TypeError)"

text \<open>\<^verbatim>\<open>len(x)\<close>.\<close>

definition py_len :: "json \<Rightarrow> exn + nat" where
  "py_len x =
     (case x of
        JList vs \<Rightarrow> Inr (length vs)
      | JStr s \<Rightarrow> Inr (length s)
      | JObj kvs \<Rightarrow> Inr (length (keys_of kvs))
      | _ \<Rightarrow> Inl TypeError)"

text \<open>The elements that \<^verbatim>\<open>for v in x\<close> visits.\<close>

definition py_iter :: "json \<Rightarrow> exn + json list" where
  "py_iter x =
     (case x of
        JList vs \<Rightarrow> Inr vs
      | JStr s \<Rightarrow> Inr (map (\<lambda>c. JStr [c]) s)
      | JObj kvs \<Rightarrow> Inr (map JStr (keys_of kvs))
      | _ \<Rightarrow> Inl TypeError)"

text \<open>The truth value of \<open>x\<close> in \<^verbatim>\<open>if x:\<close>.\<close>

definition py_truthy :: "json \<Rightarrow> bool" where
  "py_truthy x =
     (case x of
        JNull \<Rightarrow> False
      | JBool b \<Rightarrow> b
      | JInt n \<Rightarrow> n \<noteq> 0
      | JStr s \<Rightarrow> s \<noteq> []
      | JList vs \<Rightarrow> vs \<noteq> []
      | JObj kvs \<Rightarrow> kvs \<noteq> [])"

section \<open>The environment of a run\<close>

text \<open>
  The module-level globals of the script (the parsed command line, \<^verbatim>\<open>DELAY\<close>,
  \<^verbatim>\<open>current_date\<close>, which is computed once when the module is loaded, and
  \<^verbatim>\<open>blocked_doctor_ids\<close>, the string \<^verbatim>\<open>config.get\<close> returns), and the collaborators:
  \<^item> \<open>fetch_logs\<close>: the browser session of lines 110 to 136 of \<^verbatim>\<open>main\<close>, which ends
    with the decoded performance log, with \<^verbatim>\<open>sys.exit(0)\<close> or with an exception;
  \<^item> \<open>http_get_json\<close>: \<^verbatim>\<open>requests.get(url).json()\<close>;
  \<^item> \<open>find_h3\<close>: the \<^verbatim>\<open>innerHTML\<close> of the \<^verbatim>\<open>h3\<close> under \<^verbatim>\<open>search-result-<id>\<close>, \<open>None\<close>
    when the driver raises \<^verbatim>\<open>NoSuchElementException\<close>;
  \<^item> \<open>date_label\<close>: \<^verbatim>\<open>datetime.fromisoformat(s).strftime('%A, %B %d, %Y')\<close>, and
    \<open>time_label\<close>: \<^verbatim>\<open>datetime.strptime(s, "%H:%M:%S.%f%z").strftime('%H:%M')\<close>; \<open>None\<close>
    when the parser raises \<^verbatim>\<open>ValueError\<close>;
  \<^item> \<open>py_repr\<close>: what an f-string writes for a \<^verbatim>\<open>list\<close> or a \<^verbatim>\<open>dict\<close>;
  \<^item> \<open>smtp_send\<close>: the SMTP submission of \<^verbatim>\<open>email_alert\<close>, \<open>None\<close> when the message
    is accepted.
\<close>

record env =
  arg_imminent :: bool
  arg_email :: bool
  DELAY :: int
  current_date :: string
  blocked_doctor_ids :: string
  fetch_logs :: "exn + json list"
  http_get_json :: "string \<Rightarrow> exn + json"
  find_h3 :: "string \<Rightarrow> string option"
  date_label :: "string \<Rightarrow> string option"
  time_label :: "string \<Rightarrow> string option"
  py_repr :: "json \<Rightarrow> string"
  smtp_send :: "string \<Rightarrow> string \<Rightarrow> exn option"

text \<open>What an f-string writes for a decoded JSON value.\<close>

definition py_str :: "env \<Rightarrow> json \<Rightarrow> string" where
  "py_str env x =
     (case x of
        JNull \<Rightarrow> ''None''
      | JBool b \<Rightarrow> (if b then ''True'' else ''False'')
      | JInt n \<Rightarrow> show_int n
      | JStr s \<Rightarrow> s
      | _ \<Rightarrow> py_repr env x)"

section \<open>Effects\<close>

text \<open>
  What the script does to the world, in the order it does it: text written to standard
  output (with its line end), calls of the logger (level, message, further arguments),
  HTTP requests, DOM lookups of a provider's name, accepted emails (subject, body),
  \<^verbatim>\<open>sleep\<close> and \<^verbatim>\<open>driver.quit()\<close>.
\<close>

datatype level = DEBUG | INFO | WARNING | ERROR

datatype event =
    Print string
  | Log level string "string list"
  | HttpGet string
  | FindName string
  | SendMail string string
  | Sleep nat
  | DriverQuit

text \<open>
  The state of the process: the trace of effects so far, and the three working lists of
  \<^verbatim>\<open>main\<close>. Between two calls of \<^verbatim>\<open>main\<close> the lists hold what the call before left in
  them.
\<close>

record cstate =
  trace :: "event list"
  doctor_info :: "(string \<times> string) list"
  invalid_doctor_ids :: "string list"
  imminent_slots :: "pyval list list"

datatype status = Normal | Raised exn

datatype flow = Next | Break | Raise exn

definition emit :: "event \<Rightarrow> cstate \<Rightarrow> cstate" where
  "emit ev st = st\<lparr>trace := trace st @ [ev]\<rparr>"

definition CGREEN :: string where "CGREEN = CHR 0x1B # ''[32m''"
definition CBLUE :: string where "CBLUE = CHR 0x1B # ''[34m''"
definition CVIOLET :: string where "CVIOLET = CHR 0x1B # ''[35m''"
definition CEND :: string where "CEND = CHR 0x1B # ''[0m''"

section \<open>The functions of the script\<close>

subsection \<open>\<^verbatim>\<open>log_filter\<close>\<close>

definition log_filter :: "json \<Rightarrow> exn + bool" where
  "log_filter log_entry =
     ebind (py_getitem log_entry ''method'') (\<lambda>m.
       if m \<noteq> JStr ''Network.responseReceived'' then Inr False
       else
         ebind (py_getitem log_entry ''params'') (\<lambda>p.
         ebind (py_getitem p ''response'') (\<lambda>r.
         ebind (py_getitem r ''mimeType'') (\<lambda>mt.
         ebind (py_contains ''json'' mt) (\<lambda>is_json.
           if \<not> is_json then Inr False
           else
             ebind (py_getitem log_entry ''params'') (\<lambda>p2.
             ebind (py_getitem p2 ''response'') (\<lambda>r2.
             ebind (py_getitem r2 ''url'') (\<lambda>u.
               py_contains ''search_results'' u))))))))"

subsection \<open>\<^verbatim>\<open>get_doctor_name\<close>\<close>

definition get_doctor_name :: "env \<Rightarrow> string \<Rightarrow> cstate \<Rightarrow> string option \<times> cstate" where
  "get_doctor_name env doctor_id st =
     (case find_h3 env doctor_id of
        Some name \<Rightarrow> (Some name, emit (FindName doctor_id) st)
      | None \<Rightarrow>
          (None, emit (Log ERROR (''Doctor'' @ [CHR 0x27] @ ''s name not found!'') [])
                   (emit (FindName doctor_id) st)))"

subsection \<open>\<^verbatim>\<open>email_alert\<close> and \<^verbatim>\<open>check_imminent_slots\<close>\<close>

definition email_alert :: "env \<Rightarrow> string \<Rightarrow> string \<Rightarrow> cstate \<Rightarrow> status \<times> cstate" where
  "email_alert env subject body st =
     (case smtp_send env subject body of
        None \<Rightarrow> (Normal, emit (SendMail subject body) st)
      | Some e \<Rightarrow> (Raised e, st))"

text \<open>\<^verbatim>\<open>{x[0]}\<close> in an f-string, for a component \<open>x\<close> of a tuple of \<^verbatim>\<open>imminent_slots\<close>.\<close>

definition py_first :: "pyval \<Rightarrow> exn + string" where
  "py_first x =
     (case x of
        PSet S \<Rightarrow> Inl TypeError
      | PStr s \<Rightarrow> (case s of [] \<Rightarrow> Inl IndexError | c # _ \<Rightarrow> Inr [c]))"

text \<open>The text one pass of the loop over \<^verbatim>\<open>imminent_slots\<close> adds to \<^verbatim>\<open>message\<close>.\<close>

definition slot_line :: "pyval list \<Rightarrow> exn + string" where
  "slot_line tuple =
     (if length tuple = 3 then
        ebind (py_first (tuple ! 0)) (\<lambda>d.
        ebind (py_first (tuple ! 1)) (\<lambda>t.
        ebind (py_first (tuple ! 2)) (\<lambda>n.
          Inr (''- '' @ d @ '' @ '' @ t @ '' with '' @ n @ [CHR 0x0A]))))
      else if length tuple = 2 then
        ebind (py_first (tuple ! 0)) (\<lambda>d.
        ebind (py_first (tuple ! 1)) (\<lambda>t.
          Inr (''- '' @ d @ '' @ '' @ t @ [CHR 0x0A])))
      else Inr [])"

fun build_message :: "string \<Rightarrow> pyval list list \<Rightarrow> exn + string" where
  "build_message message [] = Inr message"
| "build_message message (tuple # rest) =
     ebind (slot_line tuple) (\<lambda>l. build_message (message @ l) rest)"

definition check_imminent_slots :: "env \<Rightarrow> pyval list list \<Rightarrow> cstate \<Rightarrow> status \<times> cstate" where
  "check_imminent_slots env slots st =
     (let nb_of_slots = length slots in
      if 0 < nb_of_slots then
        (case build_message
                (''The following imminent appointments are available:'' @ [CHR 0x0A, CHR 0x0A])
                slots of
           Inl e \<Rightarrow> (Raised e, st)
         | Inr message \<Rightarrow>
             if nb_of_slots = 1
             then email_alert env ''Found 1 imminent appointment on Doctolib'' message st
             else email_alert env
                    (''Found '' @ show_nat nb_of_slots @ '' imminent appointments on Doctolib'')
                    message st)
      else (Normal, st))"

subsection \<open>\<^verbatim>\<open>main\<close>: the loop over the relevant log entries (lines 138 to 160)\<close>

definition resp_url_of :: "json \<Rightarrow> exn + json" where
  "resp_url_of log_entry =
     ebind (py_getitem log_entry ''params'') (\<lambda>p.
     ebind (py_getitem p ''response'') (\<lambda>r.
       py_getitem r ''url''))"

text \<open>Lines 149 to 157: the branch on \<^verbatim>\<open>"visit_motive_id" in data["search_result"]\<close>.\<close>

definition process_search_result :: "env \<Rightarrow> string \<Rightarrow> json \<Rightarrow> cstate \<Rightarrow> status \<times> cstate" where
  "process_search_result env doctor_id data st =
     (case ebind (py_getitem data ''search_result'') (py_contains ''visit_motive_id'') of
        Inl e \<Rightarrow> (Raised e, st)
      | Inr has_motive \<Rightarrow>
          if \<not> has_motive then
            (Normal,
             (emit (Log ERROR ''Invalid data or doctor does not take new appointments'' []) st)
               \<lparr>invalid_doctor_ids := invalid_doctor_ids st @ [doctor_id]\<rparr>)
          else
            (case ebind (py_getitem data ''search_result'')
                    (\<lambda>sr. py_getitem sr ''visit_motive_id'') of
               Inl e \<Rightarrow> (Raised e, st)
             | Inr visit_motive_id \<Rightarrow>
            (case ebind (py_getitem data ''search_result'')
                    (\<lambda>sr. ebind (py_getitem sr ''agenda_ids'') py_getitem0) of
               Inl e \<Rightarrow> (Raised e, st)
             | Inr agenda_id \<Rightarrow>
            (case ebind (py_getitem data ''search_result'')
                    (\<lambda>sr. ebind (py_getitem sr ''practice_ids'') py_getitem0) of
               Inl e \<Rightarrow> (Raised e, st)
             | Inr practice_id \<Rightarrow>
                 (Normal,
                  st\<lparr>doctor_info := doctor_info st @
                       [(doctor_id,
                         ''https://www.doctolib.fr/availabilities.json?start_date=''
                           @ current_date env
                           @ ''&visit_motive_ids='' @ py_str env visit_motive_id
                           @ ''&agenda_ids='' @ py_str env agenda_id
                           @ ''&practice_ids='' @ py_str env practice_id
                           @ ''&limit=15'')]\<rparr>)))))"

text \<open>
  One pass of the loop body for an entry that \<^verbatim>\<open>log_filter\<close> let through.
  \<^verbatim>\<open>re.search\<close> raises \<^verbatim>\<open>TypeError\<close> on a value that is not a string, and \<^verbatim>\<open>.group()\<close>
  on its result \<^verbatim>\<open>None\<close> raises \<^verbatim>\<open>AttributeError\<close>.
\<close>

definition extract_entry :: "env \<Rightarrow> json \<Rightarrow> cstate \<Rightarrow> status \<times> cstate" where
  "extract_entry env log_entry st =
     (case resp_url_of log_entry of
        Inl e \<Rightarrow> (Raised e, st)
      | Inr resp_url \<Rightarrow>
          (case resp_url of
             JStr u \<Rightarrow>
               (case re_search_digits u of
                  None \<Rightarrow> (Raised AttributeError, st)
                | Some doctor_id \<Rightarrow>
                    if is_substring doctor_id (blocked_doctor_ids env) then
                      (Normal,
                       emit (Sleep 1)
                         (emit (Log WARNING (''Skipping blocked doctor_id '' @ doctor_id) []) st))
                    else
                      (case http_get_json env u of
                         Inl e \<Rightarrow> (Raised e, emit (HttpGet u) st)
                       | Inr data \<Rightarrow>
                           (case process_search_result env doctor_id data
                                   (emit (Log DEBUG ''resp_url:'' [u]) (emit (HttpGet u) st)) of
                              (Raised e, st1) \<Rightarrow> (Raised e, st1)
                            | (Normal, st1) \<Rightarrow> (Normal, emit (Sleep 1) st1))))
           | _ \<Rightarrow> (Raised TypeError, st)))"

text \<open>
  \<^verbatim>\<open>for log in filter(log_filter, logs)\<close>: \<^verbatim>\<open>filter\<close> is lazy, so \<^verbatim>\<open>log_filter\<close> runs on
  an entry only after the body has run on every relevant entry before it.
\<close>

fun extract_loop :: "env \<Rightarrow> json list \<Rightarrow> cstate \<Rightarrow> status \<times> cstate" where
  "extract_loop env [] st = (Normal, st)"
| "extract_loop env (log_entry # logs) st =
     (case log_filter log_entry of
        Inl e \<Rightarrow> (Raised e, st)
      | Inr relevant \<Rightarrow>
          if relevant then
            (case extract_entry env log_entry st of
               (Raised e, st1) \<Rightarrow> (Raised e, st1)
             | (Normal, st1) \<Rightarrow> extract_loop env logs st1)
          else extract_loop env logs st)"

text \<open>Lines 162 to 165.\<close>

definition warn_invalid :: "cstate \<Rightarrow> cstate" where
  "warn_invalid st =
     (if 0 < length (invalid_doctor_ids st) then
        emit (Log WARNING
               (''The following IDs are invalid or are associated to doctors who do not take new appointments.''
                  @ [CHR 0x0A] @ ''Consider adding them to blocked_doctor_ids: ''
                  @ py_join '', '' (sort (invalid_doctor_ids st))) []) st
      else st)"

subsection \<open>\<^verbatim>\<open>main\<close>: the loop over \<^verbatim>\<open>doctor_info\<close> (lines 167 to 207)\<close>

text \<open>
  \<^verbatim>\<open>date_str, time_str = slot.split("T")\<close> and the two parsers. A value without
  \<^verbatim>\<open>split\<close> raises \<^verbatim>\<open>AttributeError\<close>; unpacking anything but two parts raises
  \<^verbatim>\<open>ValueError\<close>, as the parsers do. The result is the pair of
  \<^verbatim>\<open>date_obj.strftime('%A, %B %d, %Y')\<close> and \<^verbatim>\<open>time_obj.strftime('%H:%M')\<close>.
\<close>

definition parse_slot :: "env \<Rightarrow> json \<Rightarrow> exn + (string \<times> string)" where
  "parse_slot env slot =
     (case slot of
        JStr s \<Rightarrow>
          (case split_on CHR ''T'' s of
             [date_str, time_str] \<Rightarrow>
               (case date_label env date_str of
                  None \<Rightarrow> Inl ValueError
                | Some d \<Rightarrow>
                    (case time_label env time_str of
                       None \<Rightarrow> Inl ValueError
                     | Some t \<Rightarrow> Inr (d, t)))
           | _ \<Rightarrow> Inl ValueError)
      | _ \<Rightarrow> Inl AttributeError)"

text \<open>Lines 185 to 193: the body of the loop over the slots of one day.\<close>

definition report_slot :: "env \<Rightarrow> string option \<Rightarrow> json \<Rightarrow> cstate \<Rightarrow> status \<times> cstate" where
  "report_slot env doctor_name slot st =
     (case parse_slot env slot of
        Inl e \<Rightarrow> (Raised e, st)
      | Inr (d, t) \<Rightarrow>
          (let st1 = emit (Print (CGREEN @ ''Found imminent slot:'' @ CEND @ '' '' @ d
                                   @ '' at '' @ t @ [CHR 0x0A])) st
           in if arg_email env then
                (case doctor_name of
                   None \<Rightarrow> (Normal, st1\<lparr>imminent_slots := imminent_slots st1 @ [[PSet {d}, PSet {t}]]\<rparr>)
                 | Some n \<Rightarrow>
                     if n \<noteq> [] then
                       (Normal, st1\<lparr>imminent_slots := imminent_slots st1 @ [[PSet {d}, PSet {t}, PStr n]]\<rparr>)
                     else
                       (Normal, st1\<lparr>imminent_slots := imminent_slots st1 @ [[PSet {d}, PSet {t}]]\<rparr>))
              else (Normal, st1)))"

fun slots_loop :: "env \<Rightarrow> string option \<Rightarrow> json list \<Rightarrow> cstate \<Rightarrow> status \<times> cstate" where
  "slots_loop env doctor_name [] st = (Normal, st)"
| "slots_loop env doctor_name (slot # slots) st =
     (case report_slot env doctor_name slot st of
        (Raised e, st1) \<Rightarrow> (Raised e, st1)
      | (Normal, st1) \<Rightarrow> slots_loop env doctor_name slots st1)"

fun avail_loop :: "env \<Rightarrow> string option \<Rightarrow> json list \<Rightarrow> cstate \<Rightarrow> status \<times> cstate" where
  "avail_loop env doctor_name [] st = (Normal, st)"
| "avail_loop env doctor_name (availability # rest) st =
     (case ebind (py_getitem availability ''slots'') py_iter of
        Inl e \<Rightarrow> (Raised e, st)
      | Inr slots \<Rightarrow>
          (case slots_loop env doctor_name slots st of
             (Raised e, st1) \<Rightarrow> (Raised e, st1)
           | (Normal, st1) \<Rightarrow> avail_loop env doctor_name rest st1))"

text \<open>Lines 173 to 176: the line \<^verbatim>\<open>print\<close> writes above a provider's slots.\<close>

definition header_line :: "string option \<Rightarrow> string" where
  "header_line doctor_name =
     (case doctor_name of
        None \<Rightarrow> py_center 60 CHR ''='' (CVIOLET @ '' [unknown] '' @ CEND)
      | Some n \<Rightarrow>
          if n \<noteq> [] then py_center 60 CHR ''='' (CVIOLET @ '' '' @ n @ '' '' @ CEND)
          else py_center 60 CHR ''='' (CVIOLET @ '' [unknown] '' @ CEND)) @ [CHR 0x0A]"

text \<open>
  Lines 196 to 205: the branch for \<^verbatim>\<open>data["total"] <= 0\<close>. The \<^verbatim>\<open>try\<close> body runs
  first; \<^verbatim>\<open>except KeyError: continue\<close> then turns a \<^verbatim>\<open>KeyError\<close> into the next pass.
\<close>

definition faraway_try :: "env \<Rightarrow> string \<Rightarrow> json \<Rightarrow> cstate \<Rightarrow> flow \<times> cstate" where
  "faraway_try env link data st =
     (case py_getitem data ''next_slot'' of
        Inl e \<Rightarrow> (Raise e, st)
      | Inr next_slot \<Rightarrow>
          if py_truthy next_slot then
            (case parse_slot env next_slot of
               Inl e \<Rightarrow> (Raise e, emit (Log INFO ''Analyzing'' [link]) st)
             | Inr (d, t) \<Rightarrow>
                 (Next,
                  emit (Print (CBLUE @ ''Found faraway slot:'' @ CEND @ '' '' @ d
                                @ '' at '' @ t @ [CHR 0x0A]))
                    (emit (Log INFO ''Analyzing'' [link]) st)))
          else (Next, st))"

definition report_faraway :: "env \<Rightarrow> string \<Rightarrow> json \<Rightarrow> cstate \<Rightarrow> flow \<times> cstate" where
  "report_faraway env link data st =
     (if \<not> arg_imminent env then
        (case faraway_try env link data st of
           (Raise e, st1) \<Rightarrow> if e = KeyError then (Next, st1) else (Raise e, st1)
         | (f, st1) \<Rightarrow> (f, st1))
      else (Next, st))"

text \<open>Lines 169 to 205: one pass of the loop over \<^verbatim>\<open>doctor_info\<close>.\<close>

definition provider_step :: "env \<Rightarrow> string \<times> string \<Rightarrow> cstate \<Rightarrow> flow \<times> cstate" where
  "provider_step env provider st =
     (case provider of (doctor_id, link) \<Rightarrow>
      (case http_get_json env link of
         Inl e \<Rightarrow> (Raise e, emit (HttpGet link) st)
       | Inr data \<Rightarrow>
           (case ebind (py_getitem data ''total'') py_gt0 of
              Inl e \<Rightarrow> (Raise e, emit (HttpGet link) st)
            | Inr positive \<Rightarrow>
                if positive then
                  (case get_doctor_name env doctor_id (emit (HttpGet link) st) of
                     (doctor_name, st2) \<Rightarrow>
                       (let st4 = emit (Print (header_line doctor_name))
                                    (emit (Log INFO ''Analyzing'' [link]) st2)
                        in (case ebind (py_getitem data ''availabilities'') py_len of
                              Inl e \<Rightarrow> (Raise e, st4)
                            | Inr n \<Rightarrow>
                                if n \<le> 0 then
                                  (Break, emit (Log ERROR ''No valid appointments found!'' []) st4)
                                else
                                  (case ebind (py_getitem data ''availabilities'') py_iter of
                                     Inl e \<Rightarrow> (Raise e, st4)
                                   | Inr availabilities \<Rightarrow>
                                       (case avail_loop env doctor_name availabilities st4 of
                                          (Raised e, st5) \<Rightarrow> (Raise e, st5)
                                        | (Normal, st5) \<Rightarrow> (Next, st5))))))
                else report_faraway env link data (emit (HttpGet link) st))))"

text \<open>
  \<^verbatim>\<open>for doctor_id, link in doctor_info\<close>. The result says how the loop was left: \<open>Next\<close>
  when the list was exhausted, \<open>Break\<close> by \<^verbatim>\<open>break\<close>, \<open>Raise\<close> by an exception.
\<close>

fun providers_loop :: "env \<Rightarrow> (string \<times> string) list \<Rightarrow> cstate \<Rightarrow> flow \<times> cstate" where
  "providers_loop env [] st = (Next, st)"
| "providers_loop env (provider # rest) st =
     (case provider_step env provider st of
        (Next, st1) \<Rightarrow> providers_loop env rest st1
      | (Break, st1) \<Rightarrow> (Break, st1)
      | (Raise e, st1) \<Rightarrow> (Raise e, st1))"

text \<open>Lines 167 to 207.\<close>

definition resolve :: "env \<Rightarrow> cstate \<Rightarrow> status \<times> cstate" where
  "resolve env st =
     (if 0 < length (doctor_info st) then
        (case providers_loop env (doctor_info st) st of
           (Raise e, st1) \<Rightarrow> (Raised e, st1)
         | (f, st1) \<Rightarrow> (Normal, st1))
      else (Normal, emit (Log ERROR ''No doctors found!'' []) st))"

subsection \<open>\<^verbatim>\<open>main\<close>\<close>

text \<open>Lines 214 to 216: \<^verbatim>\<open>for i in range(DELAY, 0, -1)\<close>.\<close>

fun countdown :: "nat \<Rightarrow> cstate \<Rightarrow> cstate" where
  "countdown 0 st = st"
| "countdown (Suc i) st =
     countdown i
       (emit (Print (''Retrying in: '' @ show_nat (Suc i) @ '' seconds'' @ [CHR 0x0D]))
          (emit (Sleep 1) st))"

text \<open>A state with a trace \<open>t\<close> and three empty lists.\<close>

definition initial_state :: "event list \<Rightarrow> cstate" where
  "initial_state t = \<lparr>trace = t, doctor_info = [], invalid_doctor_ids = [], imminent_slots = []\<rparr>"

text \<open>
  One cycle. \<open>st\<close> is the state in which \<^verbatim>\<open>main\<close> is called: the trace of the process so
  far, and whatever the three lists held when the call before ended. Lines 106 to 108
  bind the three names to new empty lists. The result is the status of the call and
  the state where the call ends.
\<close>

definition main :: "env \<Rightarrow> cstate \<Rightarrow> status \<times> cstate" where
  "main env st =
     (let st0 = st\<lparr>doctor_info := [], invalid_doctor_ids := [], imminent_slots := []\<rparr>
      in (case fetch_logs env of
            Inl e \<Rightarrow> (Raised e, st0)
          | Inr logs \<Rightarrow>
              (case extract_loop env logs st0 of
                 (Raised e, st1) \<Rightarrow> (Raised e, st1)
               | (Normal, st1) \<Rightarrow>
                   (case resolve env (warn_invalid st1) of
                      (Raised e, st2) \<Rightarrow> (Raised e, st2)
                    | (Normal, st2) \<Rightarrow>
                        (case check_imminent_slots env (imminent_slots st2) st2 of
                           (Raised e, st3) \<Rightarrow> (Raised e, st3)
                         | (Normal, st3) \<Rightarrow>
                             (Normal,
                              countdown (nat (DELAY env))
                                (emit DriverQuit
                                   (emit (Log INFO (''Exiting driver'' @ [CHR 0xE2, CHR 0x80, CHR 0xA6]) [])
                                      st3))))))))"

text \<open>The events a call of \<^verbatim>\<open>main\<close> in the state \<open>st\<close> adds to the trace.\<close>

definition cycle_output :: "env \<Rightarrow> cstate \<Rightarrow> event list" where
  "cycle_output env st = drop (length (trace st)) (trace (snd (main env st)))"

text \<open>
  Lines 218 to 221: \<^verbatim>\<open>while True: main()\<close>, cut after \<open>n\<close> calls. Each call starts in the
  state the call before ended in. An exception that leaves \<^verbatim>\<open>main\<close> ends the process.
\<close>

fun run_cycles :: "env \<Rightarrow> nat \<Rightarrow> cstate \<Rightarrow> status \<times> cstate" where
  "run_cycles env 0 st = (Normal, st)"
| "run_cycles env (Suc n) st =
     (case main env st of
        (Raised e, st1) \<Rightarrow> (Raised e, st1)
      | (Normal, st1) \<Rightarrow> run_cycles env n st1)"

text \<open>
  Line 60, \<^verbatim>\<open>current_date = datetime.now().strftime("%Y-%m-%d")\<close>, runs once, when the
  module is loaded: \<open>load_globals\<close> binds \<^verbatim>\<open>current_date\<close> to the date of that moment.
\<close>

definition load_globals :: "string \<Rightarrow> env \<Rightarrow> env" where
  "load_globals date_at_import env = env\<lparr>current_date := date_at_import\<rparr>"

text \<open>
  A run of the script under a clock: \<open>clock k\<close> is the calendar date, as
  \<^verbatim>\<open>%Y-%m-%d\<close>, on which call number \<open>k\<close> of \<^verbatim>\<open>main\<close> starts (the first call is number
  \<open>0\<close>, and the module is loaded on its day). No call of \<^verbatim>\<open>main\<close> reads the clock.
\<close>

definition run_script :: "(nat \<Rightarrow> string) \<Rightarrow> env \<Rightarrow> nat \<Rightarrow> cstate \<Rightarrow> status \<times> cstate" where
  "run_script clock env n st = run_cycles (load_globals (clock 0) env) n st"

text \<open>
  The availability URL in the words of the specification: it embeds today's date as
  \<^verbatim>\<open>start_date\<close>, the \<^verbatim>\<open>visit_motive_id\<close>, the first elements of \<^verbatim>\<open>agenda_ids\<close> and of
  \<^verbatim>\<open>practice_ids\<close>, and the limit 15.
\<close>

definition spec_availability_url :: "env \<Rightarrow> string \<Rightarrow> json \<Rightarrow> json \<Rightarrow> json \<Rightarrow> string" where
  "spec_availability_url env today visit_motive_id agenda_id practice_id =
     ''https://www.doctolib.fr/availabilities.json?start_date='' @ today
       @ ''&visit_motive_ids='' @ py_str env visit_motive_id
       @ ''&agenda_ids='' @ py_str env agenda_id
       @ ''&practice_ids='' @ py_str env practice_id
       @ ''&limit=15''"

text \<open>The same locals after a longer history: \<open>a\<close> comes before the trace.\<close>

definition prepend :: "event list \<Rightarrow> cstate \<Rightarrow> cstate" where
  "prepend a st = st\<lparr>trace := a @ trace st\<rparr>"

text \<open>The text written to standard output, in order.\<close>

fun printed :: "event list \<Rightarrow> string list" where
  "printed [] = []"
| "printed (Print line # evs) = line # printed evs"
| "printed (ev # evs) = printed evs"

text \<open>The emails of a trace, in order.\<close>

fun sent_mails :: "event list \<Rightarrow> (string \<times> string) list" where
  "sent_mails [] = []"
| "sent_mails (SendMail subject body # evs) = (subject, body) # sent_mails evs"
| "sent_mails (ev # evs) = sent_mails evs"

section \<open>A reference environment\<close>

text \<open>
  The two parsers on the timestamps of the upstream contract: a date \<^verbatim>\<open>YYYY-MM-DD\<close>
  from the year 1000 on and a time \<^verbatim>\<open>HH:MM:SS.ffffff+HH:MM\<close>. On every other string
  this instance answers \<open>None\<close>. The theorems below hold for every environment; this
  one runs the model on concrete responses.
\<close>

definition digits_val :: "string \<Rightarrow> nat option" where
  "digits_val s =
     (if s \<noteq> [] \<and> list_all is_digit s
      then Some (foldl (\<lambda>n c. 10 * n + (of_char c - 48)) 0 s) else None)"

definition leap_year :: "nat \<Rightarrow> bool" where
  "leap_year y = (if y mod 400 = 0 then True else if y mod 100 = 0 then False else y mod 4 = 0)"

definition days_in_month :: "nat \<Rightarrow> nat \<Rightarrow> nat" where
  "days_in_month y m =
     (if m = 2 then (if leap_year y then 29 else 28)
      else if m = 4 \<or> m = 6 \<or> m = 9 \<or> m = 11 then 30 else 31)"

text \<open>The day of the week of a Gregorian date, \<open>0\<close> for Sunday.\<close>

definition weekday :: "nat \<Rightarrow> nat \<Rightarrow> nat \<Rightarrow> nat" where
  "weekday y m d =
     (let y' = (if m < 3 then y - 1 else y)
      in (y' + y' div 4 + y' div 400 - y' div 100
            + [0, 3, 2, 5, 0, 3, 5, 1, 4, 6, 2, 4] ! (m - 1) + d) mod 7)"

definition weekday_name :: "nat \<Rightarrow> string" where
  "weekday_name w =
     [''Sunday'', ''Monday'', ''Tuesday'', ''Wednesday'', ''Thursday'', ''Friday'', ''Saturday''] ! w"

definition month_name :: "nat \<Rightarrow> string" where
  "month_name m =
     [''January'', ''February'', ''March'', ''April'', ''May'', ''June'', ''July'', ''August'',
      ''September'', ''October'', ''November'', ''December''] ! (m - 1)"

definition iso_date_label :: "string \<Rightarrow> string option" where
  "iso_date_label s =
     (if length s = 10 \<and> s ! 4 = CHR ''-'' \<and> s ! 7 = CHR ''-'' then
        (case digits_val (take 4 s) of
           None \<Rightarrow> None
         | Some y \<Rightarrow>
        (case digits_val (take 2 (drop 5 s)) of
           None \<Rightarrow> None
         | Some m \<Rightarrow>
        (case digits_val (drop 8 s) of
           None \<Rightarrow> None
         | Some d \<Rightarrow>
             if 1000 \<le> y \<and> 1 \<le> m \<and> m \<le> 12 \<and> 1 \<le> d \<and> d \<le> days_in_month y m
             then Some (weekday_name (weekday y m d) @ '', '' @ month_name m @ '' ''
                          @ drop 8 s @ '', '' @ take 4 s)
             else None)))
      else None)"

definition iso_time_label :: "string \<Rightarrow> string option" where
  "iso_time_label s =
     (if length s = 21 \<and> s ! 2 = CHR '':'' \<and> s ! 5 = CHR '':'' \<and> s ! 8 = CHR ''.''
         \<and> (s ! 15 = CHR ''+'' \<or> s ! 15 = CHR ''-'') \<and> s ! 18 = CHR '':''
         \<and> list_all is_digit (take 6 (drop 9 s)) then
        (case digits_val (take 2 s) of
           None \<Rightarrow> None
         | Some h \<Rightarrow>
        (case digits_val (take 2 (drop 3 s)) of
           None \<Rightarrow> None
         | Some m \<Rightarrow>
        (case digits_val (take 2 (drop 6 s)) of
           None \<Rightarrow> None
         | Some sec \<Rightarrow>
        (case digits_val (take 2 (drop 16 s)) of
           None \<Rightarrow> None
         | Some zh \<Rightarrow>
        (case digits_val (drop 19 s) of
           None \<Rightarrow> None
         | Some zm \<Rightarrow>
             if h < 24 \<and> m < 60 \<and> sec < 62 \<and> zh < 24 \<and> zm < 60
             then Some (take 5 s) else None)))))
      else None)"

text \<open>
  Upstream responses: four search results (provider 101 takes new appointments, 202
  has no \<^verbatim>\<open>visit_motive_id\<close>, 909 has an empty list of \<^verbatim>\<open>agenda_ids\<close>, 505 takes new
  appointments) and availabilities: two
  near-term slots, a positive total with no day, a far slot, a \<^verbatim>\<open>null\<close> far slot, and
  no far slot at all.
\<close>

definition search_url :: "string \<Rightarrow> string" where
  "search_url doctor_id = ''https://www.doctolib.fr/search_results/'' @ doctor_id @ ''.json?limit=3''"

definition avail_url :: "string \<Rightarrow> string" where
  "avail_url ids =
     ''https://www.doctolib.fr/availabilities.json?start_date=2025-06-01'' @ ids @ ''&limit=15''"

definition demo_responses :: "(string \<times> json) list" where
  "demo_responses =
     [(search_url ''101'',
       JObj [(''search_result'',
              JObj [(''visit_motive_id'', JInt 7), (''agenda_ids'', JList [JInt 11, JInt 12]),
                    (''practice_ids'', JList [JInt 21])])]),
      (search_url ''202'', JObj [(''search_result'', JObj [(''id'', JInt 202)])]),
      (search_url ''909'',
       JObj [(''search_result'',
              JObj [(''visit_motive_id'', JInt 9), (''agenda_ids'', JList []),
                    (''practice_ids'', JList [JInt 91])])]),
      (search_url ''505'',
       JObj [(''search_result'',
              JObj [(''visit_motive_id'', JInt 8), (''agenda_ids'', JList [JInt 51]),
                    (''practice_ids'', JList [JInt 52])])]),
      (avail_url ''&visit_motive_ids=7&agenda_ids=11&practice_ids=21'',
       JObj [(''total'', JInt 2),
             (''availabilities'',
              JList [JObj [(''date'', JStr ''2025-06-01''),
                           (''slots'', JList [JStr ''2025-06-01T09:30:00.000000+02:00'',
                                              JStr ''2025-06-01T14:00:00.000000+02:00''])]])]),
      (avail_url ''&visit_motive_ids=8&agenda_ids=51&practice_ids=52'',
       JObj [(''total'', JInt 1), (''availabilities'', JList [])]),
      (avail_url ''&visit_motive_ids=9&agenda_ids=61&practice_ids=62'',
       JObj [(''total'', JInt 0), (''availabilities'', JList []),
             (''next_slot'', JStr ''2025-07-10T10:00:00.000000+02:00'')]),
      (avail_url ''&visit_motive_ids=9&agenda_ids=71&practice_ids=72'',
       JObj [(''total'', JInt 0), (''availabilities'', JList []), (''next_slot'', JNull)]),
      (avail_url ''&visit_motive_ids=9&agenda_ids=81&practice_ids=82'',
       JObj [(''total'', JInt 0), (''availabilities'', JList [])])]"

definition demo_http :: "string \<Rightarrow> exn + json" where
  "demo_http url =
     (case map_of demo_responses url of
        None \<Rightarrow> Inl (OtherError ''ConnectionError'')
      | Some data \<Rightarrow> Inr data)"

definition demo_names :: "string \<Rightarrow> string option" where
  "demo_names doctor_id = (if doctor_id = ''101'' then Some ''Dr Martin'' else None)"

text \<open>A performance-log entry of the method \<^verbatim>\<open>Network.responseReceived\<close>.\<close>

definition response_entry :: "string \<Rightarrow> string \<Rightarrow> json" where
  "response_entry mime url =
     JObj [(''method'', JStr ''Network.responseReceived''),
           (''params'', JObj [(''response'', JObj [(''mimeType'', JStr mime), (''url'', JStr url)])])]"

definition demo_logs :: "json list" where
  "demo_logs =
     [JObj [(''method'', JStr ''Page.loadEventFired''), (''params'', JObj [])],
      response_entry ''text/html'' ''https://www.doctolib.fr/dermatologue/paris'',
      response_entry ''application/json'' (search_url ''202''),
      response_entry ''application/json'' (search_url ''101'')]"

definition demo_env :: env where
  "demo_env =
     \<lparr>arg_imminent = False, arg_email = False, DELAY = 2, current_date = ''2025-06-01'',
      blocked_doctor_ids = ''303,404'', fetch_logs = Inr demo_logs,
      http_get_json = demo_http, find_h3 = demo_names,
      date_label = iso_date_label, time_label = iso_time_label,
      py_repr = (\<lambda>x. []), smtp_send = (\<lambda>subject body. None)\<rparr>"

text \<open>A clock: the script is started on 1 June 2025, and midnight passes before call 1.\<close>

definition demo_clock :: "nat \<Rightarrow> string" where
  "demo_clock k = (if k = 0 then ''2025-06-01'' else ''2025-06-02'')"

section \<open>Properties\<close>

lemma ebind_Inl [simp]: "ebind (Inl e) f = Inl e"
  by (simp add: ebind_def)

lemma ebind_Inr [simp]: "ebind (Inr v) f = f v"
  by (simp add: ebind_def)

lemma is_substring_sublist: "is_substring p s = sublist p s"
  by (induction s) (simp_all add: sublist_Cons_right)

lemma is_substring_iff: "is_substring p s \<longleftrightarrow> (\<exists>a b. s = a @ p @ b)"
  by (simp add: is_substring_sublist sublist_def)

text \<open>
  Claim C3. On a log entry with a method, and a response with a MIME type and a URL that
  are strings, \<^verbatim>\<open>log_filter\<close> returns a truth value, and that value is true exactly
  when the method is \<^verbatim>\<open>Network.responseReceived\<close>, \<^verbatim>\<open>json\<close> occurs in the MIME type and
  \<^verbatim>\<open>search_results\<close> occurs in the URL; it is false as soon as one of the three fails.
\<close>
theorem log_filter_iff:
  assumes "py_getitem log_entry ''method'' = Inr method"
    and "py_getitem log_entry ''params'' = Inr params"
    and "py_getitem params ''response'' = Inr response"
    and "py_getitem response ''mimeType'' = Inr (JStr mime)"
    and "py_getitem response ''url'' = Inr (JStr url)"
  shows "log_filter log_entry =
           Inr (method = JStr ''Network.responseReceived''
                \<and> (\<exists>a b. mime = a @ ''json'' @ b)
                \<and> (\<exists>a b. url = a @ ''search_results'' @ b))"
  using assms by (simp add: log_filter_def py_contains_def is_substring_iff)

lemma log_filter_other_method:
  assumes "py_getitem log_entry ''method'' = Inr method"
    and "method \<noteq> JStr ''Network.responseReceived''"
  shows "log_filter log_entry = Inr False"
  using assms by (simp add: log_filter_def)

theorem log_filter_iff_witness:
  "py_getitem (response_entry ''application/json'' (search_url ''101'')) ''method''
     = Inr (JStr ''Network.responseReceived'')
   \<and> log_filter (response_entry ''application/json'' (search_url ''101'')) = Inr True
   \<and> log_filter (response_entry ''text/html'' (search_url ''101'')) = Inr False
   \<and> log_filter (response_entry ''application/json'' ''https://www.doctolib.fr/dermatologue/paris'') = Inr False"
proof -
  let ?r = "\<lambda>mime url. JObj [(''mimeType'', JStr mime), (''url'', JStr url)]"
  let ?p = "\<lambda>mime url. JObj [(''response'', ?r mime url)]"
  have m: "py_getitem (response_entry mime url) ''method'' = Inr (JStr ''Network.responseReceived'')"
    for mime url by (simp add: response_entry_def py_getitem_def)
  have p: "py_getitem (response_entry mime url) ''params'' = Inr (?p mime url)"
    for mime url by (simp add: response_entry_def py_getitem_def)
  have r: "py_getitem (?p mime url) ''response'' = Inr (?r mime url)"
    for mime url by (simp add: py_getitem_def)
  have mt: "py_getitem (?r mime url) ''mimeType'' = Inr (JStr mime)"
    for mime url by (simp add: py_getitem_def)
  have u: "py_getitem (?r mime url) ''url'' = Inr (JStr url)"
    for mime url by (simp add: py_getitem_def)
  note th = log_filter_iff [OF m p r mt u]
  have j1: "is_substring ''json'' ''application/json''" by simp
  have j2: "\<not> is_substring ''json'' ''text/html''" by simp
  have s1: "is_substring ''search_results'' (search_url ''101'')" by (simp add: search_url_def)
  have s2: "\<not> is_substring ''search_results'' ''https://www.doctolib.fr/dermatologue/paris''" by simp
  show ?thesis
    using th [of "''application/json''" "search_url ''101''"]
      th [of "''text/html''" "search_url ''101''"]
      th [of "''application/json''" "''https://www.doctolib.fr/dermatologue/paris''"]
      j1 j2 s1 s2 m
    by (simp add: is_substring_iff)
qed

lemma trace_emit [simp]: "trace (emit ev st) = trace st @ [ev]"
  and doctor_info_emit [simp]: "doctor_info (emit ev st) = doctor_info st"
  and invalid_emit [simp]: "invalid_doctor_ids (emit ev st) = invalid_doctor_ids st"
  and imminent_emit [simp]: "imminent_slots (emit ev st) = imminent_slots st"
  by (simp_all add: emit_def)

lemma case_list_None: "(case xs of [] \<Rightarrow> None | d # r \<Rightarrow> Some (f d r)) = None \<longleftrightarrow> xs = []"
  by (cases xs) simp_all

lemma re_search_digits_None: "re_search_digits u = None \<longleftrightarrow> set u \<inter> set ''0123456789'' = {}"
proof -
  have "re_search_digits u = None \<longleftrightarrow> dropWhile (\<lambda>c. \<not> is_digit c) u = []"
    unfolding re_search_digits_def by (rule case_list_None)
  also have "\<dots> \<longleftrightarrow> (\<forall>c\<in>set u. \<not> is_digit c)"
    by (simp only: dropWhile_eq_Nil_conv)
  also have "\<dots> \<longleftrightarrow> set u \<inter> set ''0123456789'' = {}"
    unfolding is_digit_def by blast
  finally show ?thesis .
qed

text \<open>
  Claim C8. For a relevant log entry whose response URL has no digit, the extraction of
  the provider identifier raises (\<^verbatim>\<open>AttributeError\<close>, from \<^verbatim>\<open>.group()\<close> on \<^verbatim>\<open>None\<close>): the
  loop body and the loop end there, with nothing done.
\<close>
theorem no_digit_url_raises:
  assumes "log_filter log_entry = Inr True"
    and "resp_url_of log_entry = Inr (JStr u)"
    and "set u \<inter> set ''0123456789'' = {}"
  shows "extract_entry env log_entry st = (Raised AttributeError, st)
         \<and> extract_loop env (log_entry # logs) st = (Raised AttributeError, st)"
proof -
  have "re_search_digits u = None"
    using assms(3) by (simp add: re_search_digits_None)
  then have "extract_entry env log_entry st = (Raised AttributeError, st)"
    using assms(2) by (simp add: extract_entry_def)
  then show ?thesis
    using assms(1) by simp
qed

text \<open>
  Claim C6. For a relevant log entry whose provider identifier occurs in
  \<^verbatim>\<open>blocked_doctor_ids\<close> as a substring, the loop body logs one warning and sleeps: no
  HTTP request is made, and \<^verbatim>\<open>doctor_info\<close> and \<^verbatim>\<open>invalid_doctor_ids\<close> stay as they were.
\<close>
theorem blocked_entry_skipped:
  assumes "log_filter log_entry = Inr True"
    and "resp_url_of log_entry = Inr (JStr u)"
    and "re_search_digits u = Some doctor_id"
    and "\<exists>a b. blocked_doctor_ids env = a @ doctor_id @ b"
  shows "extract_entry env log_entry st =
           (Normal, st\<lparr>trace := trace st @
              [Log WARNING (''Skipping blocked doctor_id '' @ doctor_id) [], Sleep 1]\<rparr>)"
  using assms by (simp add: extract_entry_def is_substring_iff emit_def)

lemma load_globals_fields [simp]:
  "current_date (load_globals d env) = d"
  "blocked_doctor_ids (load_globals d env) = blocked_doctor_ids env"
  "http_get_json (load_globals d env) = http_get_json env"
  "arg_imminent (load_globals d env) = arg_imminent env"
  "arg_email (load_globals d env) = arg_email env"
  by (simp_all add: load_globals_def)

lemma py_str_load_globals [simp]: "py_str (load_globals d env) x = py_str env x"
  by (cases x) (simp_all add: load_globals_def py_str_def)

text \<open>
  Claim C7, as amended. For a relevant log entry of a provider that is not blocked and
  whose search result has a \<^verbatim>\<open>visit_motive_id\<close>: when \<^verbatim>\<open>agenda_ids\<close> and \<^verbatim>\<open>practice_ids\<close>
  are non-empty lists, the record appended to \<^verbatim>\<open>doctor_info\<close> carries the availability
  URL with, as \<^verbatim>\<open>start_date\<close>, the date on which the module was loaded (the value line 60
  gave \<^verbatim>\<open>current_date\<close>, the same in every cycle of the process), the \<^verbatim>\<open>visit_motive_id\<close>,
  the first element of \<^verbatim>\<open>agenda_ids\<close>, the first element of \<^verbatim>\<open>practice_ids\<close> and
  \<^verbatim>\<open>limit=15\<close>; when \<^verbatim>\<open>agenda_ids\<close> or \<^verbatim>\<open>practice_ids\<close> is missing or empty, the loop body
  raises \<^verbatim>\<open>KeyError\<close> or \<^verbatim>\<open>IndexError\<close> and no record is appended.
\<close>
theorem provider_record_url:
  assumes "log_filter log_entry = Inr True"
    and "resp_url_of log_entry = Inr (JStr u)"
    and "re_search_digits u = Some doctor_id"
    and "\<not> (\<exists>a b. blocked_doctor_ids env = a @ doctor_id @ b)"
    and "http_get_json env u = Inr data"
    and "py_getitem data ''search_result'' = Inr (JObj sr)"
    and "map_of sr ''visit_motive_id'' = Some visit_motive_id"
  shows "(map_of sr ''agenda_ids'' = Some (JList (agenda_id # agenda_rest)) \<longrightarrow>
          map_of sr ''practice_ids'' = Some (JList (practice_id # practice_rest)) \<longrightarrow>
          extract_entry (load_globals date_at_import env) log_entry st =
            (Normal,
             st\<lparr>trace := trace st @ [HttpGet u, Log DEBUG ''resp_url:'' [u], Sleep 1],
                doctor_info := doctor_info st @
                  [(doctor_id,
                    ''https://www.doctolib.fr/availabilities.json?start_date='' @ date_at_import
                      @ ''&visit_motive_ids='' @ py_str env visit_motive_id
                      @ ''&agenda_ids='' @ py_str env agenda_id
                      @ ''&practice_ids='' @ py_str env practice_id
                      @ ''&limit=15'')]\<rparr>))
       \<and> (map_of sr ''agenda_ids'' = None \<longrightarrow>
          extract_entry (load_globals date_at_import env) log_entry st =
            (Raised KeyError, st\<lparr>trace := trace st @ [HttpGet u, Log DEBUG ''resp_url:'' [u]]\<rparr>))
       \<and> (map_of sr ''agenda_ids'' = Some (JList []) \<longrightarrow>
          extract_entry (load_globals date_at_import env) log_entry st =
            (Raised IndexError, st\<lparr>trace := trace st @ [HttpGet u, Log DEBUG ''resp_url:'' [u]]\<rparr>))
       \<and> (map_of sr ''agenda_ids'' = Some (JList (agenda_id # agenda_rest)) \<longrightarrow>
          map_of sr ''practice_ids'' = None \<longrightarrow>
          extract_entry (load_globals date_at_import env) log_entry st =
            (Raised KeyError, st\<lparr>trace := trace st @ [HttpGet u, Log DEBUG ''resp_url:'' [u]]\<rparr>))
       \<and> (map_of sr ''agenda_ids'' = Some (JList (agenda_id # agenda_rest)) \<longrightarrow>
          map_of sr ''practice_ids'' = Some (JList []) \<longrightarrow>
          extract_entry (load_globals date_at_import env) log_entry st =
            (Raised IndexError, st\<lparr>trace := trace st @ [HttpGet u, Log DEBUG ''resp_url:'' [u]]\<rparr>))"
proof -
  let ?env = "load_globals date_at_import env"
  have sr: "py_contains ''visit_motive_id'' (JObj sr) = Inr True"
    "py_getitem (JObj sr) ''visit_motive_id'' = Inr visit_motive_id"
    using assms(7) by (simp_all add: py_contains_def py_getitem_def)
  have step: "extract_entry ?env log_entry st =
      (case process_search_result ?env doctor_id data
              (emit (Log DEBUG ''resp_url:'' [u]) (emit (HttpGet u) st)) of
         (Raised e, st1) \<Rightarrow> (Raised e, st1)
       | (Normal, st1) \<Rightarrow> (Normal, emit (Sleep 1) st1))"
    using assms(2-5) by (simp add: extract_entry_def is_substring_iff)
  have ok: "process_search_result ?env doctor_id data st' =
          (Normal, st'\<lparr>doctor_info := doctor_info st' @
                 [(doctor_id,
                   ''https://www.doctolib.fr/availabilities.json?start_date='' @ date_at_import
                     @ ''&visit_motive_ids='' @ py_str env visit_motive_id
                     @ ''&agenda_ids='' @ py_str env agenda_id
                     @ ''&practice_ids='' @ py_str env practice_id
                     @ ''&limit=15'')]\<rparr>)"
    if "map_of sr ''agenda_ids'' = Some (JList (agenda_id # agenda_rest))"
      and "map_of sr ''practice_ids'' = Some (JList (practice_id # practice_rest))" for st'
    using assms(6) sr that
    by (simp add: process_search_result_def py_getitem_def py_getitem0_def)
  have a_none: "process_search_result ?env doctor_id data st' = (Raised KeyError, st')"
    if "map_of sr ''agenda_ids'' = None" for st'
    using assms(6) sr that
    by (simp add: process_search_result_def py_getitem_def py_getitem0_def)
  have a_empty: "process_search_result ?env doctor_id data st' = (Raised IndexError, st')"
    if "map_of sr ''agenda_ids'' = Some (JList [])" for st'
    using assms(6) sr that
    by (simp add: process_search_result_def py_getitem_def py_getitem0_def)
  have p_none: "process_search_result ?env doctor_id data st' = (Raised KeyError, st')"
    if "map_of sr ''agenda_ids'' = Some (JList (agenda_id # agenda_rest))"
      and "map_of sr ''practice_ids'' = None" for st'
    using assms(6) sr that
    by (simp add: process_search_result_def py_getitem_def py_getitem0_def)
  have p_empty: "process_search_result ?env doctor_id data st' = (Raised IndexError, st')"
    if "map_of sr ''agenda_ids'' = Some (JList (agenda_id # agenda_rest))"
      and "map_of sr ''practice_ids'' = Some (JList [])" for st'
    using assms(6) sr that
    by (simp add: process_search_result_def py_getitem_def py_getitem0_def)
  show ?thesis
    unfolding step
    by (simp add: ok a_none a_empty p_none p_empty emit_def)
qed

declare show_nat.simps [simp del]

lemma providers_loop_append:
  "providers_loop env (xs @ ys) st =
     (case providers_loop env xs st of
        (Next, st1) \<Rightarrow> providers_loop env ys st1
      | (Break, st1) \<Rightarrow> (Break, st1)
      | (Raise e, st1) \<Rightarrow> (Raise e, st1))"
  by (induction xs arbitrary: st) (auto split: prod.splits flow.splits)

text \<open>
  Claim C2. When the loop over \<^verbatim>\<open>doctor_info\<close> reaches a provider whose availability
  response has a positive \<^verbatim>\<open>total\<close> and an empty list of \<^verbatim>\<open>availabilities\<close>, it logs the
  error and is left by \<^verbatim>\<open>break\<close>: the trace ends with that error, whatever providers
  \<open>post\<close> come after, so none of them is fetched, looked up or printed.
\<close>
theorem empty_availabilities_abort:
  assumes "providers_loop env pre st = (Next, st1)"
    and "http_get_json env link = Inr data"
    and "py_getitem data ''total'' = Inr (JInt total_slots)"
    and "0 < total_slots"
    and "py_getitem data ''availabilities'' = Inr (JList [])"
  shows "providers_loop env (pre @ (doctor_id, link) # post) st =
           (Break,
            st1\<lparr>trace := trace st1 @ [HttpGet link, FindName doctor_id]
                   @ (case find_h3 env doctor_id of
                        None \<Rightarrow> [Log ERROR (''Doctor'' @ [CHR 0x27] @ ''s name not found!'') []]
                      | Some name \<Rightarrow> [])
                   @ [Log INFO ''Analyzing'' [link],
                      Print (header_line (find_h3 env doctor_id)),
                      Log ERROR ''No valid appointments found!'' []]\<rparr>)"
proof -
  have "provider_step env (doctor_id, link) st1 =
           (Break,
            st1\<lparr>trace := trace st1 @ [HttpGet link, FindName doctor_id]
                   @ (case find_h3 env doctor_id of
                        None \<Rightarrow> [Log ERROR (''Doctor'' @ [CHR 0x27] @ ''s name not found!'') []]
                      | Some name \<Rightarrow> [])
                   @ [Log INFO ''Analyzing'' [link],
                      Print (header_line (find_h3 env doctor_id)),
                      Log ERROR ''No valid appointments found!'' []]\<rparr>)"
    using assms(2-5)
    by (cases "find_h3 env doctor_id")
      (simp_all add: provider_step_def py_gt0_def py_len_def get_doctor_name_def emit_def)
  then show ?thesis
    using assms(1) by (simp add: providers_loop_append)
qed

text \<open>
  Claim C5, as amended. For a provider whose availability response has \<^verbatim>\<open>total\<close> equal
  to \<open>0\<close>: with \<^verbatim>\<open>--imminent\<close> nothing is printed, whatever \<^verbatim>\<open>next_slot\<close> is; without
  \<^verbatim>\<open>--imminent\<close>, a missing \<^verbatim>\<open>next_slot\<close> is tolerated with no output and no error, a
  \<^verbatim>\<open>next_slot\<close> that is present but false in \<^verbatim>\<open>if data["next_slot"]:\<close> (such as
  \<^verbatim>\<open>null\<close> or the empty string) gives no output and no error either, and a
  \<^verbatim>\<open>next_slot\<close> that is true there and that the parsers accept gives exactly one
  faraway line.
\<close>
theorem zero_total_faraway:
  assumes "http_get_json env link = Inr (JObj data)"
    and "map_of data ''total'' = Some (JInt 0)"
  shows "(arg_imminent env \<longrightarrow>
            provider_step env (doctor_id, link) st = (Next, emit (HttpGet link) st))
       \<and> (\<not> arg_imminent env \<longrightarrow> map_of data ''next_slot'' = None \<longrightarrow>
            provider_step env (doctor_id, link) st = (Next, emit (HttpGet link) st))
       \<and> (\<not> arg_imminent env \<longrightarrow> map_of data ''next_slot'' = Some next_slot \<longrightarrow>
            \<not> py_truthy next_slot \<longrightarrow>
            provider_step env (doctor_id, link) st = (Next, emit (HttpGet link) st))
       \<and> (\<not> arg_imminent env \<longrightarrow> map_of data ''next_slot'' = Some next_slot \<longrightarrow>
            py_truthy next_slot \<longrightarrow> parse_slot env next_slot = Inr (d, t) \<longrightarrow>
            provider_step env (doctor_id, link) st =
              (Next,
               st\<lparr>trace := trace st @
                  [HttpGet link, Log INFO ''Analyzing'' [link],
                   Print (CBLUE @ ''Found faraway slot:'' @ CEND @ '' '' @ d @ '' at '' @ t
                            @ [CHR 0x0A])]\<rparr>))"
  using assms
  by (simp add: provider_step_def py_getitem_def py_gt0_def report_faraway_def
      faraway_try_def emit_def)

lemma prepend_fields [simp]:
  "trace (prepend a st) = a @ trace st"
  "doctor_info (prepend a st) = doctor_info st"
  "invalid_doctor_ids (prepend a st) = invalid_doctor_ids st"
  "imminent_slots (prepend a st) = imminent_slots st"
  by (simp_all add: prepend_def)

lemma emit_prepend [simp]: "emit ev (prepend a st) = prepend a (emit ev st)"
  by (simp add: emit_def prepend_def)

lemma prepend_updates [simp]:
  "(prepend a st)\<lparr>doctor_info := x\<rparr> = prepend a (st\<lparr>doctor_info := x\<rparr>)"
  "(prepend a st)\<lparr>invalid_doctor_ids := y\<rparr> = prepend a (st\<lparr>invalid_doctor_ids := y\<rparr>)"
  "(prepend a st)\<lparr>imminent_slots := z\<rparr> = prepend a (st\<lparr>imminent_slots := z\<rparr>)"
  by (simp_all add: prepend_def)

lemma get_doctor_name_prepend:
  "get_doctor_name env doctor_id (prepend a st) = apsnd (prepend a) (get_doctor_name env doctor_id st)"
  by (simp add: get_doctor_name_def split: option.splits)

lemma email_alert_prepend:
  "email_alert env subject body (prepend a st) = apsnd (prepend a) (email_alert env subject body st)"
  by (simp add: email_alert_def split: option.splits)

lemma check_imminent_slots_prepend:
  "check_imminent_slots env slots (prepend a st) = apsnd (prepend a) (check_imminent_slots env slots st)"
  by (simp add: check_imminent_slots_def email_alert_prepend Let_def split: sum.splits)

lemma process_search_result_prepend:
  "process_search_result env doctor_id data (prepend a st)
     = apsnd (prepend a) (process_search_result env doctor_id data st)"
  by (simp add: process_search_result_def split: sum.splits)

lemma extract_entry_prepend:
  "extract_entry env log_entry (prepend a st) = apsnd (prepend a) (extract_entry env log_entry st)"
  by (simp add: extract_entry_def process_search_result_prepend
      split: sum.splits json.splits option.splits prod.splits status.splits)

lemma extract_loop_prepend:
  "extract_loop env logs (prepend a st) = apsnd (prepend a) (extract_loop env logs st)"
  by (induction logs arbitrary: st)
    (simp_all add: extract_entry_prepend split: sum.splits prod.splits status.splits)

lemma warn_invalid_prepend: "warn_invalid (prepend a st) = prepend a (warn_invalid st)"
  by (simp add: warn_invalid_def)

lemma report_slot_prepend:
  "report_slot env doctor_name slot (prepend a st) = apsnd (prepend a) (report_slot env doctor_name slot st)"
  by (simp add: report_slot_def Let_def split: sum.splits prod.splits option.splits)

lemma slots_loop_prepend:
  "slots_loop env doctor_name slots (prepend a st) = apsnd (prepend a) (slots_loop env doctor_name slots st)"
  by (induction slots arbitrary: st)
    (simp_all add: report_slot_prepend split: prod.splits status.splits)

lemma avail_loop_prepend:
  "avail_loop env doctor_name avs (prepend a st) = apsnd (prepend a) (avail_loop env doctor_name avs st)"
  by (induction avs arbitrary: st)
    (simp_all add: slots_loop_prepend split: sum.splits prod.splits status.splits)

lemma faraway_try_prepend:
  "faraway_try env link data (prepend a st) = apsnd (prepend a) (faraway_try env link data st)"
  by (simp add: faraway_try_def split: sum.splits prod.splits)

lemma report_faraway_prepend:
  "report_faraway env link data (prepend a st) = apsnd (prepend a) (report_faraway env link data st)"
  by (simp add: report_faraway_def faraway_try_prepend split: prod.splits flow.splits)

lemma provider_step_prepend:
  "provider_step env provider (prepend a st) = apsnd (prepend a) (provider_step env provider st)"
proof (cases provider)
  case (Pair doctor_id link)
  obtain name st2 where g: "get_doctor_name env doctor_id (emit (HttpGet link) st) = (name, st2)"
    by (cases "get_doctor_name env doctor_id (emit (HttpGet link) st)") blast
  then have g': "get_doctor_name env doctor_id (prepend a (emit (HttpGet link) st)) = (name, prepend a st2)"
    by (simp add: get_doctor_name_prepend)
  show ?thesis
    unfolding Pair provider_step_def
    by (simp add: g g' avail_loop_prepend report_faraway_prepend Let_def
        split: sum.splits prod.splits status.splits)
qed

lemma providers_loop_prepend:
  "providers_loop env ps (prepend a st) = apsnd (prepend a) (providers_loop env ps st)"
  by (induction ps arbitrary: st)
    (simp_all add: provider_step_prepend split: prod.splits flow.splits)

lemma resolve_prepend:
  "resolve env (prepend a st) = apsnd (prepend a) (resolve env st)"
  by (simp add: resolve_def providers_loop_prepend split: prod.splits flow.splits)

lemma countdown_prepend:
  "countdown n (prepend a st) = prepend a (countdown n st)"
  by (induction n arbitrary: st) simp_all

lemma main_prepend: "main env (prepend a st) = apsnd (prepend a) (main env st)"
  by (simp add: main_def extract_loop_prepend warn_invalid_prepend
      resolve_prepend check_imminent_slots_prepend countdown_prepend Let_def
      split: sum.splits prod.splits status.splits)

lemma reset_lists:
  "st\<lparr>doctor_info := [], invalid_doctor_ids := [], imminent_slots := []\<rparr> = initial_state (trace st)"
  by (cases st) (simp add: initial_state_def)

lemma main_reset: "main env st = main env (initial_state (trace st))"
proof -
  have "(initial_state t)\<lparr>doctor_info := [], invalid_doctor_ids := [], imminent_slots := []\<rparr>
          = initial_state t" for t
    by (simp add: initial_state_def)
  then show ?thesis
    by (simp add: main_def reset_lists)
qed

lemma main_from_empty: "main env st = apsnd (prepend (trace st)) (main env (initial_state []))"
proof -
  have "initial_state (trace st) = prepend (trace st) (initial_state [])"
    by (simp add: initial_state_def prepend_def)
  then show ?thesis
    using main_reset [of env st] main_prepend [of env "trace st" "initial_state []"] by simp
qed

text \<open>
  Claim C9. \<^verbatim>\<open>main\<close> is called in the state the call before left: its trace and its
  three lists. When a call of \<^verbatim>\<open>main\<close> returns, the next call, in the same environment,
  returns too and adds the same events to the trace; and the events a call adds are
  the same from every state \<open>st'\<close>, whatever its lists hold, since lines 106 to 108
  make the three lists empty before anything reads them.
\<close>
theorem cycles_independent:
  assumes "main env st = (Normal, st1)"
  shows "main env st1 = (Normal, st1\<lparr>trace := trace st1 @ cycle_output env st\<rparr>)
       \<and> cycle_output env st1 = cycle_output env st
       \<and> cycle_output env st' = cycle_output env st
       \<and> run_cycles env 2 st = (Normal, st1\<lparr>trace := trace st1 @ cycle_output env st\<rparr>)"
proof -
  obtain s0 st0 where m0: "main env (initial_state []) = (s0, st0)"
    by (cases "main env (initial_state [])") blast
  have st: "s0 = Normal" "st1 = prepend (trace st) st0"
    using assms main_from_empty [of env st] m0 by simp_all
  have out: "cycle_output env x = trace st0" for x
    using main_from_empty [of env x] m0 by (simp add: cycle_output_def)
  have second: "main env st1 = (Normal, st1\<lparr>trace := trace st1 @ cycle_output env st\<rparr>)"
    using main_from_empty [of env st1] m0 st by (simp add: out prepend_def)
  have "run_cycles env (Suc (Suc 0)) st = (Normal, st1\<lparr>trace := trace st1 @ cycle_output env st\<rparr>)"
    using assms second by simp
  then show ?thesis
    using second by (simp add: out numeral_2_eq_2)
qed

lemma sent_mails_append: "sent_mails (xs @ ys) = sent_mails xs @ sent_mails ys"
  by (induction xs rule: sent_mails.induct) simp_all

lemma get_doctor_name_quiet:
  "sent_mails (trace (snd (get_doctor_name env doctor_id st))) = sent_mails (trace st)
   \<and> imminent_slots (snd (get_doctor_name env doctor_id st)) = imminent_slots st"
  by (simp add: get_doctor_name_def sent_mails_append split: option.splits)

lemma process_search_result_quiet:
  "sent_mails (trace (snd (process_search_result env doctor_id data st))) = sent_mails (trace st)
   \<and> imminent_slots (snd (process_search_result env doctor_id data st)) = imminent_slots st"
  by (simp add: process_search_result_def sent_mails_append split: sum.splits)

lemma extract_entry_quiet:
  "sent_mails (trace (snd (extract_entry env log_entry st))) = sent_mails (trace st)
   \<and> imminent_slots (snd (extract_entry env log_entry st)) = imminent_slots st"
proof -
  have "sent_mails (trace (snd (case process_search_result env doctor_id data st' of
            (Raised e, st1) \<Rightarrow> (Raised e, st1)
          | (Normal, st1) \<Rightarrow> (Normal, emit (Sleep 1) st1)))) = sent_mails (trace st')
        \<and> imminent_slots (snd (case process_search_result env doctor_id data st' of
            (Raised e, st1) \<Rightarrow> (Raised e, st1)
          | (Normal, st1) \<Rightarrow> (Normal, emit (Sleep 1) st1))) = imminent_slots st'"
    for doctor_id data st'
    using process_search_result_quiet [of env doctor_id data st']
    by (cases "process_search_result env doctor_id data st'")
      (auto simp: sent_mails_append split: status.splits)
  then show ?thesis
    by (simp add: extract_entry_def sent_mails_append
        split: sum.splits json.splits option.splits)
qed

lemma extract_loop_quiet:
  "sent_mails (trace (snd (extract_loop env logs st))) = sent_mails (trace st)
   \<and> imminent_slots (snd (extract_loop env logs st)) = imminent_slots st"
proof (induction logs arbitrary: st)
  case Nil
  show ?case by simp
next
  case (Cons log_entry logs)
  show ?case
  proof (cases "log_filter log_entry")
    case (Inl e)
    then show ?thesis by simp
  next
    case (Inr relevant)
    show ?thesis
    proof (cases relevant)
      case False
      with Inr Cons.IH [of st] show ?thesis by simp
    next
      case True
      obtain s st1 where e: "extract_entry env log_entry st = (s, st1)"
        by (cases "extract_entry env log_entry st") blast
      with extract_entry_quiet [of env log_entry st]
      have q: "sent_mails (trace st1) = sent_mails (trace st)" "imminent_slots st1 = imminent_slots st"
        by simp_all
      show ?thesis
        using Inr True e q Cons.IH [of st1] by (cases s) simp_all
    qed
  qed
qed

lemma warn_invalid_quiet:
  "sent_mails (trace (warn_invalid st)) = sent_mails (trace st)
   \<and> imminent_slots (warn_invalid st) = imminent_slots st"
  by (simp add: warn_invalid_def sent_mails_append)

lemma report_slot_quiet:
  assumes "\<not> arg_email env"
  shows "sent_mails (trace (snd (report_slot env doctor_name slot st))) = sent_mails (trace st)
   \<and> imminent_slots (snd (report_slot env doctor_name slot st)) = imminent_slots st"
  using assms
  by (simp add: report_slot_def sent_mails_append Let_def split: sum.splits prod.splits)

lemma slots_loop_quiet:
  assumes "\<not> arg_email env"
  shows "sent_mails (trace (snd (slots_loop env doctor_name slots st))) = sent_mails (trace st)
   \<and> imminent_slots (snd (slots_loop env doctor_name slots st)) = imminent_slots st"
proof (induction slots arbitrary: st)
  case Nil
  show ?case by simp
next
  case (Cons slot slots)
  obtain s st1 where e: "report_slot env doctor_name slot st = (s, st1)"
    by (cases "report_slot env doctor_name slot st") blast
  with report_slot_quiet [OF assms, of doctor_name slot st]
  have q: "sent_mails (trace st1) = sent_mails (trace st)" "imminent_slots st1 = imminent_slots st"
    by simp_all
  show ?case
    using e q Cons.IH [of st1] by (cases s) simp_all
qed

lemma avail_loop_quiet:
  assumes "\<not> arg_email env"
  shows "sent_mails (trace (snd (avail_loop env doctor_name avs st))) = sent_mails (trace st)
   \<and> imminent_slots (snd (avail_loop env doctor_name avs st)) = imminent_slots st"
proof (induction avs arbitrary: st)
  case Nil
  show ?case by simp
next
  case (Cons availability rest)
  show ?case
  proof (cases "ebind (py_getitem availability ''slots'') py_iter")
    case (Inl e)
    then show ?thesis by simp
  next
    case (Inr slots)
    obtain s st1 where e: "slots_loop env doctor_name slots st = (s, st1)"
      by (cases "slots_loop env doctor_name slots st") blast
    with slots_loop_quiet [OF assms, of doctor_name slots st]
    have q: "sent_mails (trace st1) = sent_mails (trace st)" "imminent_slots st1 = imminent_slots st"
      by simp_all
    show ?thesis
      using Inr e q Cons.IH [of st1] by (cases s) simp_all
  qed
qed

lemma report_faraway_quiet:
  "sent_mails (trace (snd (report_faraway env link data st))) = sent_mails (trace st)
   \<and> imminent_slots (snd (report_faraway env link data st)) = imminent_slots st"
  by (simp add: report_faraway_def faraway_try_def sent_mails_append
      split: sum.splits prod.splits flow.splits)

lemma provider_step_quiet:
  assumes "\<not> arg_email env"
  shows "sent_mails (trace (snd (provider_step env provider st))) = sent_mails (trace st)
   \<and> imminent_slots (snd (provider_step env provider st)) = imminent_slots st"
proof (cases provider)
  case (Pair doctor_id link)
  obtain name st2 where g: "get_doctor_name env doctor_id (emit (HttpGet link) st) = (name, st2)"
    by (cases "get_doctor_name env doctor_id (emit (HttpGet link) st)") blast
  with get_doctor_name_quiet [of env doctor_id "emit (HttpGet link) st"]
  have q2: "sent_mails (trace st2) = sent_mails (trace st)" "imminent_slots st2 = imminent_slots st"
    by (simp_all add: sent_mails_append)
  have av: "sent_mails (trace (snd (avail_loop env name avs
                (emit (Print (header_line name)) (emit (Log INFO ''Analyzing'' [link]) st2)))))
              = sent_mails (trace st)
        \<and> imminent_slots (snd (avail_loop env name avs
                (emit (Print (header_line name)) (emit (Log INFO ''Analyzing'' [link]) st2))))
              = imminent_slots st" for avs
    using avail_loop_quiet [OF assms, of name avs
        "emit (Print (header_line name)) (emit (Log INFO ''Analyzing'' [link]) st2)"] q2
    by (simp add: sent_mails_append)
  have av': "sent_mails (trace (snd (case avail_loop env name avs
                (emit (Print (header_line name)) (emit (Log INFO ''Analyzing'' [link]) st2)) of
                   (Raised e, st5) \<Rightarrow> (Raise e, st5) | (Normal, st5) \<Rightarrow> (Next, st5))))
              = sent_mails (trace st)
        \<and> imminent_slots (snd (case avail_loop env name avs
                (emit (Print (header_line name)) (emit (Log INFO ''Analyzing'' [link]) st2)) of
                   (Raised e, st5) \<Rightarrow> (Raise e, st5) | (Normal, st5) \<Rightarrow> (Next, st5)))
              = imminent_slots st" for avs
    using av [of avs]
    by (cases "avail_loop env name avs
                (emit (Print (header_line name)) (emit (Log INFO ''Analyzing'' [link]) st2))")
      (auto split: status.splits)
  have fa: "sent_mails (trace (snd (report_faraway env link data (emit (HttpGet link) st))))
              = sent_mails (trace st)
        \<and> imminent_slots (snd (report_faraway env link data (emit (HttpGet link) st)))
              = imminent_slots st" for data
    using report_faraway_quiet [of env link data "emit (HttpGet link) st"]
    by (simp add: sent_mails_append)
  show ?thesis
    unfolding Pair provider_step_def
    by (simp add: g q2 av' fa sent_mails_append Let_def split: sum.splits)
qed

lemma providers_loop_quiet:
  assumes "\<not> arg_email env"
  shows "sent_mails (trace (snd (providers_loop env ps st))) = sent_mails (trace st)
   \<and> imminent_slots (snd (providers_loop env ps st)) = imminent_slots st"
proof (induction ps arbitrary: st)
  case Nil
  show ?case by simp
next
  case (Cons provider rest)
  obtain f st1 where e: "provider_step env provider st = (f, st1)"
    by (cases "provider_step env provider st") blast
  with provider_step_quiet [OF assms, of provider st]
  have q: "sent_mails (trace st1) = sent_mails (trace st)" "imminent_slots st1 = imminent_slots st"
    by simp_all
  show ?case
    using e q Cons.IH [of st1] by (cases f) simp_all
qed

lemma resolve_quiet:
  assumes "\<not> arg_email env"
  shows "sent_mails (trace (snd (resolve env st))) = sent_mails (trace st)
   \<and> imminent_slots (snd (resolve env st)) = imminent_slots st"
proof -
  obtain f st1 where e: "providers_loop env (doctor_info st) st = (f, st1)"
    by (cases "providers_loop env (doctor_info st) st") blast
  with providers_loop_quiet [OF assms, of "doctor_info st" st]
  have q: "sent_mails (trace st1) = sent_mails (trace st)" "imminent_slots st1 = imminent_slots st"
    by simp_all
  show ?thesis
    using e q by (cases f) (simp_all add: resolve_def sent_mails_append)
qed

lemma countdown_quiet:
  "sent_mails (trace (countdown n st)) = sent_mails (trace st)
   \<and> imminent_slots (countdown n st) = imminent_slots st"
  by (induction n arbitrary: st) (simp_all add: sent_mails_append)

text \<open>
  Claim C10. Without \<^verbatim>\<open>--email\<close>, \<^verbatim>\<open>imminent_slots\<close> is empty where \<^verbatim>\<open>main\<close> ends,
  however it ends and whatever state it was called in, and the call sends no email.
\<close>
theorem no_email_flag_no_mail:
  assumes "\<not> arg_email env"
  shows "imminent_slots (snd (main env st)) = []
       \<and> sent_mails (trace (snd (main env st))) = sent_mails (trace st)"
proof (cases "fetch_logs env")
  case (Inl e)
  then show ?thesis by (simp add: main_def)
next
  case (Inr logs)
  let ?st0 = "st\<lparr>doctor_info := [], invalid_doctor_ids := [], imminent_slots := []\<rparr>"
  obtain s1 st1 where e1: "extract_loop env logs ?st0 = (s1, st1)"
    by (cases "extract_loop env logs ?st0") blast
  with extract_loop_quiet [of env logs ?st0]
  have q1: "sent_mails (trace st1) = sent_mails (trace st)" "imminent_slots st1 = []"
    by simp_all
  obtain s2 st2 where e2: "resolve env (warn_invalid st1) = (s2, st2)"
    by (cases "resolve env (warn_invalid st1)") blast
  with resolve_quiet [OF assms, of "warn_invalid st1"] warn_invalid_quiet [of st1] q1
  have q2: "sent_mails (trace st2) = sent_mails (trace st)" "imminent_slots st2 = []"
    by simp_all
  have c: "check_imminent_slots env (imminent_slots st2) st2 = (Normal, st2)"
    using q2 by (simp add: check_imminent_slots_def)
  show ?thesis
  proof (cases s1)
    case (Raised e)
    with Inr e1 q1 show ?thesis by (simp add: main_def)
  next
    case Normal
    show ?thesis
    proof (cases s2)
      case (Raised e)
      with Inr e1 e2 q2 Normal show ?thesis by (simp add: main_def)
    next
      case Normal2: Normal
      with Inr e1 e2 q2 Normal c countdown_quiet show ?thesis
        by (simp add: main_def sent_mails_append)
    qed
  qed
qed

theorem no_digit_url_raises_witness:
  "log_filter (response_entry ''application/json'' ''https://www.doctolib.fr/search_results/doctors.json'')
     = Inr True
   \<and> set ''https://www.doctolib.fr/search_results/doctors.json'' \<inter> set ''0123456789'' = {}
   \<and> extract_loop demo_env
        [response_entry ''application/json'' ''https://www.doctolib.fr/search_results/doctors.json'']
        (initial_state [])
       = (Raised AttributeError, initial_state [])"
proof -
  let ?u = "''https://www.doctolib.fr/search_results/doctors.json''"
  let ?e = "response_entry ''application/json'' ?u"
  have f: "log_filter ?e = Inr True"
    by (simp add: log_filter_def response_entry_def py_getitem_def py_contains_def)
  have u: "resp_url_of ?e = Inr (JStr ?u)"
    by (simp add: resp_url_of_def response_entry_def py_getitem_def)
  have d: "set ?u \<inter> set ''0123456789'' = {}"
    by simp
  show ?thesis
    using no_digit_url_raises [OF f u d, of demo_env "initial_state []" "[]"] f d by simp
qed

theorem blocked_entry_skipped_witness:
  "log_filter (response_entry ''application/json'' (search_url ''303'')) = Inr True
   \<and> re_search_digits (search_url ''303'') = Some ''303''
   \<and> is_substring ''303'' (blocked_doctor_ids demo_env)
   \<and> extract_entry demo_env (response_entry ''application/json'' (search_url ''303''))
        (initial_state [])
       = (Normal, initial_state [Log WARNING ''Skipping blocked doctor_id 303'' [], Sleep 1])"
proof -
  let ?u = "search_url ''303''"
  let ?e = "response_entry ''application/json'' ?u"
  have f: "log_filter ?e = Inr True"
    by (simp add: log_filter_def response_entry_def py_getitem_def py_contains_def search_url_def)
  have u: "resp_url_of ?e = Inr (JStr ?u)"
    by (simp add: resp_url_of_def response_entry_def py_getitem_def)
  have d: "re_search_digits ?u = Some ''303''"
    by (simp add: re_search_digits_def search_url_def is_digit_def)
  have b: "is_substring ''303'' (blocked_doctor_ids demo_env)"
    by (simp add: demo_env_def)
  have b': "\<exists>a b. blocked_doctor_ids demo_env = a @ ''303'' @ b"
    unfolding is_substring_iff [symmetric] by (rule b)
  show ?thesis
    using blocked_entry_skipped [OF f u d b', of "initial_state []"] f d b
    by (simp add: initial_state_def)
qed

theorem provider_record_url_witness:
  "log_filter (response_entry ''application/json'' (search_url ''101'')) = Inr True
   \<and> re_search_digits (search_url ''101'') = Some ''101''
   \<and> \<not> is_substring ''101'' (blocked_doctor_ids demo_env)
   \<and> doctor_info (snd (extract_entry (load_globals ''2025-06-01'' demo_env)
          (response_entry ''application/json'' (search_url ''101'')) (initial_state [])))
       = [(''101'',
           ''https://www.doctolib.fr/availabilities.json?start_date=2025-06-01&visit_motive_ids=7&agenda_ids=11&practice_ids=21&limit=15'')]
   \<and> extract_entry (load_globals ''2025-06-01'' demo_env)
          (response_entry ''application/json'' (search_url ''909'')) (initial_state [])
       = (Raised IndexError,
          initial_state [HttpGet (search_url ''909''), Log DEBUG ''resp_url:'' [search_url ''909'']])"
proof -
  let ?u = "search_url ''101''"
  let ?e = "response_entry ''application/json'' ?u"
  let ?sr = "[(''visit_motive_id'', JInt 7), (''agenda_ids'', JList [JInt 11, JInt 12]),
              (''practice_ids'', JList [JInt 21])]"
  let ?u9 = "search_url ''909''"
  let ?e9 = "response_entry ''application/json'' ?u9"
  let ?sr9 = "[(''visit_motive_id'', JInt 9), (''agenda_ids'', JList []),
               (''practice_ids'', JList [JInt 91])]"
  have f: "log_filter ?e = Inr True" "log_filter ?e9 = Inr True"
    by (simp_all add: log_filter_def response_entry_def py_getitem_def py_contains_def search_url_def)
  have u: "resp_url_of ?e = Inr (JStr ?u)" "resp_url_of ?e9 = Inr (JStr ?u9)"
    by (simp_all add: resp_url_of_def response_entry_def py_getitem_def)
  have d: "re_search_digits ?u = Some ''101''" "re_search_digits ?u9 = Some ''909''"
    by (simp_all add: re_search_digits_def search_url_def is_digit_def)
  have b: "\<not> is_substring ''101'' (blocked_doctor_ids demo_env)"
    "\<not> is_substring ''909'' (blocked_doctor_ids demo_env)"
    by (simp_all add: demo_env_def)
  have b': "\<not> (\<exists>a b. blocked_doctor_ids demo_env = a @ ''101'' @ b)"
    "\<not> (\<exists>a b. blocked_doctor_ids demo_env = a @ ''909'' @ b)"
    unfolding is_substring_iff [symmetric] by (rule b)+
  have h: "http_get_json demo_env ?u = Inr (JObj [(''search_result'', JObj ?sr)])"
    "http_get_json demo_env ?u9 = Inr (JObj [(''search_result'', JObj ?sr9)])"
    by (simp_all add: demo_env_def demo_http_def demo_responses_def search_url_def)
  have s: "py_getitem (JObj [(''search_result'', JObj ?sr)]) ''search_result'' = Inr (JObj ?sr)"
    "py_getitem (JObj [(''search_result'', JObj ?sr9)]) ''search_result'' = Inr (JObj ?sr9)"
    by (simp_all add: py_getitem_def)
  have v: "map_of ?sr ''visit_motive_id'' = Some (JInt 7)"
    "map_of ?sr9 ''visit_motive_id'' = Some (JInt 9)"
    and a: "map_of ?sr ''agenda_ids'' = Some (JList (JInt 11 # [JInt 12]))"
    "map_of ?sr9 ''agenda_ids'' = Some (JList [])"
    and p: "map_of ?sr ''practice_ids'' = Some (JList (JInt 21 # []))"
    by simp_all
  have n: "show_nat 7 = ''7''" "show_nat 11 = ''11''" "show_nat 21 = ''21''"
    by (simp_all add: show_nat.simps digit_char_def)
  have py: "py_str demo_env (JInt 7) = ''7''" "py_str demo_env (JInt 11) = ''11''"
    "py_str demo_env (JInt 21) = ''21''"
    using n by (simp_all add: py_str_def show_int_def)
  show ?thesis
    using provider_record_url [OF f(1) u(1) d(1) b'(1) h(1) s(1) v(1),
        of "JInt 11" "[JInt 12]" "JInt 21" "[]" "''2025-06-01''" "initial_state []"]
      provider_record_url [OF f(2) u(2) d(2) b'(2) h(2) s(2) v(2),
        of _ _ _ _ "''2025-06-01''" "initial_state []"]
      f d b a p py
    by (simp add: initial_state_def)
qed

lemma demo_far_slot:
  "parse_slot demo_env (JStr ''2025-07-10T10:00:00.000000+02:00'')
     = Inr (''Thursday, July 10, 2025'', ''10:00'')"
  by code_simp

lemma demo_http_far:
  "http_get_json demo_env (avail_url ''&visit_motive_ids=9&agenda_ids=61&practice_ids=62'')
     = Inr (JObj [(''total'', JInt 0), (''availabilities'', JList []),
                  (''next_slot'', JStr ''2025-07-10T10:00:00.000000+02:00'')])"
  by (simp add: demo_env_def demo_http_def demo_responses_def avail_url_def search_url_def)

lemma demo_http_null:
  "http_get_json demo_env (avail_url ''&visit_motive_ids=9&agenda_ids=71&practice_ids=72'')
     = Inr (JObj [(''total'', JInt 0), (''availabilities'', JList []), (''next_slot'', JNull)])"
  by (simp add: demo_env_def demo_http_def demo_responses_def avail_url_def search_url_def)

lemma demo_http_none:
  "http_get_json demo_env (avail_url ''&visit_motive_ids=9&agenda_ids=81&practice_ids=82'')
     = Inr (JObj [(''total'', JInt 0), (''availabilities'', JList [])])"
  by (simp add: demo_env_def demo_http_def demo_responses_def avail_url_def search_url_def)

lemma demo_http_empty:
  "http_get_json demo_env (avail_url ''&visit_motive_ids=8&agenda_ids=51&practice_ids=52'')
     = Inr (JObj [(''total'', JInt 1), (''availabilities'', JList [])])"
  by (simp add: demo_env_def demo_http_def demo_responses_def avail_url_def search_url_def)

text \<open>
  Claim C5 as stated fails: the response of provider 707 has \<^verbatim>\<open>total\<close> \<open>0\<close> and the
  field \<^verbatim>\<open>next_slot\<close> is present, with the value \<^verbatim>\<open>null\<close>; \<^verbatim>\<open>--imminent\<close> is not set, and
  no line is printed.
\<close>
theorem null_next_slot_counterexample:
  "http_get_json demo_env (avail_url ''&visit_motive_ids=9&agenda_ids=71&practice_ids=72'')
     = Inr (JObj [(''total'', JInt 0), (''availabilities'', JList []), (''next_slot'', JNull)])
   \<and> \<not> arg_imminent demo_env
   \<and> py_getitem (JObj [(''total'', JInt 0), (''availabilities'', JList []), (''next_slot'', JNull)])
        ''next_slot'' = Inr JNull
   \<and> provider_step demo_env
        (''707'', avail_url ''&visit_motive_ids=9&agenda_ids=71&practice_ids=72'') (initial_state [])
       = (Next, initial_state [HttpGet (avail_url ''&visit_motive_ids=9&agenda_ids=71&practice_ids=72'')])
   \<and> printed [HttpGet (avail_url ''&visit_motive_ids=9&agenda_ids=71&practice_ids=72'')] = []"
proof -
  have "provider_step demo_env
        (''707'', avail_url ''&visit_motive_ids=9&agenda_ids=71&practice_ids=72'') (initial_state [])
       = (Next, initial_state [HttpGet (avail_url ''&visit_motive_ids=9&agenda_ids=71&practice_ids=72'')])"
    by (simp add: provider_step_def demo_http_null py_getitem_def py_gt0_def report_faraway_def
        faraway_try_def py_truthy_def initial_state_def emit_def demo_env_def [THEN arg_cong [of _ _ arg_imminent]])
  moreover have "\<not> arg_imminent demo_env"
    by (simp add: demo_env_def)
  ultimately show ?thesis
    by (simp add: demo_http_null py_getitem_def)
qed

theorem zero_total_faraway_witness:
  "provider_step (demo_env\<lparr>arg_imminent := True\<rparr>)
      (''606'', avail_url ''&visit_motive_ids=9&agenda_ids=61&practice_ids=62'') (initial_state [])
     = (Next, initial_state [HttpGet (avail_url ''&visit_motive_ids=9&agenda_ids=61&practice_ids=62'')])
   \<and> provider_step demo_env
      (''808'', avail_url ''&visit_motive_ids=9&agenda_ids=81&practice_ids=82'') (initial_state [])
     = (Next, initial_state [HttpGet (avail_url ''&visit_motive_ids=9&agenda_ids=81&practice_ids=82'')])
   \<and> provider_step demo_env
      (''707'', avail_url ''&visit_motive_ids=9&agenda_ids=71&practice_ids=72'') (initial_state [])
     = (Next, initial_state [HttpGet (avail_url ''&visit_motive_ids=9&agenda_ids=71&practice_ids=72'')])
   \<and> provider_step demo_env
      (''606'', avail_url ''&visit_motive_ids=9&agenda_ids=61&practice_ids=62'') (initial_state [])
     = (Next, initial_state
         [HttpGet (avail_url ''&visit_motive_ids=9&agenda_ids=61&practice_ids=62''),
          Log INFO ''Analyzing'' [avail_url ''&visit_motive_ids=9&agenda_ids=61&practice_ids=62''],
          Print (CBLUE @ ''Found faraway slot:'' @ CEND @ '' Thursday, July 10, 2025 at 10:00''
                   @ [CHR 0x0A])])"
proof -
  let ?far = "[(''total'', JInt 0), (''availabilities'', JList []),
               (''next_slot'', JStr ''2025-07-10T10:00:00.000000+02:00'')]"
  let ?null = "[(''total'', JInt 0), (''availabilities'', JList []), (''next_slot'', JNull)]"
  let ?none = "[(''total'', JInt 0), (''availabilities'', JList [])]"
  have im: "\<not> arg_imminent demo_env" "arg_imminent (demo_env\<lparr>arg_imminent := True\<rparr>)"
    by (simp_all add: demo_env_def)
  have h': "http_get_json (demo_env\<lparr>arg_imminent := True\<rparr>)
              (avail_url ''&visit_motive_ids=9&agenda_ids=61&practice_ids=62'') = Inr (JObj ?far)"
    using demo_http_far by simp
  have t: "map_of ?far ''total'' = Some (JInt 0)" "map_of ?null ''total'' = Some (JInt 0)"
    "map_of ?none ''total'' = Some (JInt 0)"
    by simp_all
  have n: "map_of ?none ''next_slot'' = None" "map_of ?null ''next_slot'' = Some JNull"
    "map_of ?far ''next_slot'' = Some (JStr ''2025-07-10T10:00:00.000000+02:00'')"
    by simp_all
  have tr: "\<not> py_truthy JNull" "py_truthy (JStr ''2025-07-10T10:00:00.000000+02:00'')"
    by (simp_all add: py_truthy_def)
  show ?thesis
    using zero_total_faraway [OF h' t(1), of "''606''" "initial_state []"]
      zero_total_faraway [OF demo_http_none t(3), of "''808''" "initial_state []"]
      zero_total_faraway [OF demo_http_null t(2), of "''707''" "initial_state []" JNull]
      zero_total_faraway [OF demo_http_far t(1), of "''606''" "initial_state []"
        "JStr ''2025-07-10T10:00:00.000000+02:00''" "''Thursday, July 10, 2025''" "''10:00''"]
      im n tr demo_far_slot
    by (simp add: initial_state_def emit_def)
qed

theorem empty_availabilities_abort_witness:
  "providers_loop demo_env
      [(''606'', avail_url ''&visit_motive_ids=9&agenda_ids=61&practice_ids=62'')] (initial_state [])
     = (Next, initial_state
         [HttpGet (avail_url ''&visit_motive_ids=9&agenda_ids=61&practice_ids=62''),
          Log INFO ''Analyzing'' [avail_url ''&visit_motive_ids=9&agenda_ids=61&practice_ids=62''],
          Print (CBLUE @ ''Found faraway slot:'' @ CEND @ '' Thursday, July 10, 2025 at 10:00''
                   @ [CHR 0x0A])])
   \<and> providers_loop demo_env
      [(''606'', avail_url ''&visit_motive_ids=9&agenda_ids=61&practice_ids=62''),
       (''505'', avail_url ''&visit_motive_ids=8&agenda_ids=51&practice_ids=52''),
       (''101'', avail_url ''&visit_motive_ids=7&agenda_ids=11&practice_ids=21'')] (initial_state [])
     = (Break, initial_state
         [HttpGet (avail_url ''&visit_motive_ids=9&agenda_ids=61&practice_ids=62''),
          Log INFO ''Analyzing'' [avail_url ''&visit_motive_ids=9&agenda_ids=61&practice_ids=62''],
          Print (CBLUE @ ''Found faraway slot:'' @ CEND @ '' Thursday, July 10, 2025 at 10:00''
                   @ [CHR 0x0A]),
          HttpGet (avail_url ''&visit_motive_ids=8&agenda_ids=51&practice_ids=52''),
          FindName ''505'',
          Log ERROR (''Doctor'' @ [CHR 0x27] @ ''s name not found!'') [],
          Log INFO ''Analyzing'' [avail_url ''&visit_motive_ids=8&agenda_ids=51&practice_ids=52''],
          Print (header_line None),
          Log ERROR ''No valid appointments found!'' []])"
proof -
  let ?l6 = "avail_url ''&visit_motive_ids=9&agenda_ids=61&practice_ids=62''"
  let ?l5 = "avail_url ''&visit_motive_ids=8&agenda_ids=51&practice_ids=52''"
  let ?st1 = "initial_state
         [HttpGet ?l6, Log INFO ''Analyzing'' [?l6],
          Print (CBLUE @ ''Found faraway slot:'' @ CEND @ '' Thursday, July 10, 2025 at 10:00''
                   @ [CHR 0x0A])]"
  let ?d5 = "JObj [(''total'', JInt 1), (''availabilities'', JList [])]"
  have pre: "providers_loop demo_env [(''606'', ?l6)] (initial_state []) = (Next, ?st1)"
    using demo_far_slot
    by (simp add: provider_step_def demo_http_far py_getitem_def py_gt0_def report_faraway_def
        faraway_try_def py_truthy_def initial_state_def emit_def
        demo_env_def [THEN arg_cong [of _ _ arg_imminent]])
  have t: "py_getitem ?d5 ''total'' = Inr (JInt 1)" "(0::int) < 1"
    and a: "py_getitem ?d5 ''availabilities'' = Inr (JList [])"
    by (simp_all add: py_getitem_def)
  have nm: "find_h3 demo_env ''505'' = None"
    by (simp add: demo_env_def demo_names_def)
  show ?thesis
    using empty_availabilities_abort [OF pre demo_http_empty t a, of "''505''"
        "[(''101'', avail_url ''&visit_motive_ids=7&agenda_ids=11&practice_ids=21'')]"] pre nm
    by (simp add: initial_state_def)
qed

lemma demo_cycle:
  "main demo_env (initial_state []) =
     (Normal,
      \<lparr>trace =
         [HttpGet (search_url ''202''),
          Log DEBUG ''resp_url:'' [search_url ''202''],
          Log ERROR ''Invalid data or doctor does not take new appointments'' [],
          Sleep 1,
          HttpGet (search_url ''101''),
          Log DEBUG ''resp_url:'' [search_url ''101''],
          Sleep 1,
          Log WARNING
            (''The following IDs are invalid or are associated to doctors who do not take new appointments.''
               @ [CHR 0x0A] @ ''Consider adding them to blocked_doctor_ids: 202'') [],
          HttpGet (avail_url ''&visit_motive_ids=7&agenda_ids=11&practice_ids=21''),
          FindName ''101'',
          Log INFO ''Analyzing'' [avail_url ''&visit_motive_ids=7&agenda_ids=11&practice_ids=21''],
          Print (header_line (Some ''Dr Martin'')),
          Print (CGREEN @ ''Found imminent slot:'' @ CEND @ '' Sunday, June 01, 2025 at 09:30''
                   @ [CHR 0x0A]),
          Print (CGREEN @ ''Found imminent slot:'' @ CEND @ '' Sunday, June 01, 2025 at 14:00''
                   @ [CHR 0x0A]),
          Log INFO (''Exiting driver'' @ [CHR 0xE2, CHR 0x80, CHR 0xA6]) [],
          DriverQuit,
          Sleep 1,
          Print (''Retrying in: 2 seconds'' @ [CHR 0x0D]),
          Sleep 1,
          Print (''Retrying in: 1 seconds'' @ [CHR 0x0D])],
       doctor_info = [(''101'', avail_url ''&visit_motive_ids=7&agenda_ids=11&practice_ids=21'')],
       invalid_doctor_ids = [''202''],
       imminent_slots = []\<rparr>)"
  by code_simp

lemma demo_email_cycle:
  "main (demo_env\<lparr>arg_imminent := True, arg_email := True\<rparr>) (initial_state []) =
     (Raised TypeError,
      \<lparr>trace =
         [HttpGet (search_url ''202''),
          Log DEBUG ''resp_url:'' [search_url ''202''],
          Log ERROR ''Invalid data or doctor does not take new appointments'' [],
          Sleep 1,
          HttpGet (search_url ''101''),
          Log DEBUG ''resp_url:'' [search_url ''101''],
          Sleep 1,
          Log WARNING
            (''The following IDs are invalid or are associated to doctors who do not take new appointments.''
               @ [CHR 0x0A] @ ''Consider adding them to blocked_doctor_ids: 202'') [],
          HttpGet (avail_url ''&visit_motive_ids=7&agenda_ids=11&practice_ids=21''),
          FindName ''101'',
          Log INFO ''Analyzing'' [avail_url ''&visit_motive_ids=7&agenda_ids=11&practice_ids=21''],
          Print (header_line (Some ''Dr Martin'')),
          Print (CGREEN @ ''Found imminent slot:'' @ CEND @ '' Sunday, June 01, 2025 at 09:30''
                   @ [CHR 0x0A]),
          Print (CGREEN @ ''Found imminent slot:'' @ CEND @ '' Sunday, June 01, 2025 at 14:00''
                   @ [CHR 0x0A])],
       doctor_info = [(''101'', avail_url ''&visit_motive_ids=7&agenda_ids=11&practice_ids=21'')],
       invalid_doctor_ids = [''202''],
       imminent_slots =
         [[PSet {''Sunday, June 01, 2025''}, PSet {''09:30''}, PStr ''Dr Martin''],
          [PSet {''Sunday, June 01, 2025''}, PSet {''14:00''}, PStr ''Dr Martin'']]\<rparr>)"
  by code_simp

lemma demo_second_cycle:
  "run_cycles demo_env 2 (initial_state []) =
     (Normal,
      prepend (trace (snd (main demo_env (initial_state []))))
        (snd (main demo_env (initial_state []))))"
proof -
  obtain st1 where m: "main demo_env (initial_state []) = (Normal, st1)"
    using demo_cycle by simp
  have "main demo_env st1 = (Normal, prepend (trace st1) st1)"
    using main_from_empty [of demo_env st1] m by simp
  then have "run_cycles demo_env (Suc (Suc 0)) (initial_state []) = (Normal, prepend (trace st1) st1)"
    using m by simp
  then show ?thesis
    using m by (simp add: numeral_2_eq_2)
qed

theorem cycles_independent_witness:
  "fst (main demo_env (initial_state [])) = Normal
   \<and> doctor_info (snd (main demo_env (initial_state [])))
       = [(''101'',
           ''https://www.doctolib.fr/availabilities.json?start_date=2025-06-01&visit_motive_ids=7&agenda_ids=11&practice_ids=21&limit=15'')]
   \<and> invalid_doctor_ids (snd (main demo_env (initial_state []))) = [''202'']
   \<and> cycle_output demo_env (snd (main demo_env (initial_state [])))
       = cycle_output demo_env (initial_state [])
   \<and> fst (run_cycles demo_env 2 (initial_state [])) = Normal
   \<and> length (printed (cycle_output demo_env (initial_state []))) = 5"
proof -
  have n: "fst (main demo_env (initial_state [])) = Normal"
    by (simp add: demo_cycle)
  then have m: "main demo_env (initial_state []) = (Normal, snd (main demo_env (initial_state [])))"
    by (metis prod.collapse)
  have l: "doctor_info (snd (main demo_env (initial_state [])))
       = [(''101'',
           ''https://www.doctolib.fr/availabilities.json?start_date=2025-06-01&visit_motive_ids=7&agenda_ids=11&practice_ids=21&limit=15'')]"
    "invalid_doctor_ids (snd (main demo_env (initial_state []))) = [''202'']"
    by (simp_all add: demo_cycle avail_url_def)
  have p: "length (printed (cycle_output demo_env (initial_state []))) = 5"
  proof -
    have "trace (initial_state []) = []"
      by (simp add: initial_state_def)
    then show ?thesis
      by (simp add: cycle_output_def demo_cycle)
  qed
  show ?thesis
    using cycles_independent [OF m] n l p by simp
qed

theorem no_email_flag_no_mail_witness:
  "\<not> arg_email demo_env
   \<and> imminent_slots (snd (main demo_env (initial_state []))) = []
   \<and> sent_mails (trace (snd (main demo_env (initial_state [])))) = []
   \<and> printed (trace (snd (main demo_env (initial_state [])))) ! 1
       = CGREEN @ ''Found imminent slot:'' @ CEND @ '' Sunday, June 01, 2025 at 09:30'' @ [CHR 0x0A]
   \<and> printed (trace (snd (main demo_env (initial_state [])))) ! 2
       = CGREEN @ ''Found imminent slot:'' @ CEND @ '' Sunday, June 01, 2025 at 14:00'' @ [CHR 0x0A]"
proof -
  have e: "\<not> arg_email demo_env"
    by (simp add: demo_env_def)
  have p: "printed (trace (snd (main demo_env (initial_state [])))) ! 1
       = CGREEN @ ''Found imminent slot:'' @ CEND @ '' Sunday, June 01, 2025 at 09:30'' @ [CHR 0x0A]"
    "printed (trace (snd (main demo_env (initial_state [])))) ! 2
       = CGREEN @ ''Found imminent slot:'' @ CEND @ '' Sunday, June 01, 2025 at 14:00'' @ [CHR 0x0A]"
    by (simp_all add: demo_cycle)
  show ?thesis
    using no_email_flag_no_mail [OF e, of "initial_state []"] e p
    by (simp add: initial_state_def)
qed

lemma check_imminent_slots_set_head:
  "check_imminent_slots env ([PSet D, PSet T, PStr n] # rest) st = (Raised TypeError, st)"
  "check_imminent_slots env ([PSet D, PSet T] # rest) st = (Raised TypeError, st)"
  by (simp_all add: check_imminent_slots_def slot_line_def py_first_def)

text \<open>
  Claim C1 fails on the code. A record that \<^verbatim>\<open>main\<close> appends holds two sets and
  possibly the name; \<^verbatim>\<open>tuple[0][0]\<close> subscripts a set, so \<^verbatim>\<open>check_imminent_slots\<close>
  raises \<^verbatim>\<open>TypeError\<close> before any line of the body exists and before \<^verbatim>\<open>email_alert\<close>.
\<close>
theorem set_record_raises:
  "check_imminent_slots demo_env
      [[PSet {''Sunday, June 01, 2025''}, PSet {''09:30''}, PStr ''Dr Martin'']] (initial_state [])
     = (Raised TypeError, initial_state [])
   \<and> check_imminent_slots demo_env
      [[PSet {''Sunday, June 01, 2025''}, PSet {''09:30''}]] (initial_state [])
     = (Raised TypeError, initial_state [])"
  by (simp add: check_imminent_slots_def slot_line_def py_first_def)

text \<open>
  Claim C4 fails on the code. With \<^verbatim>\<open>--imminent --email\<close> and two near-term slots of
  provider 101, the batch holds two records where the cycle ends, the call of \<^verbatim>\<open>main\<close>
  raises \<^verbatim>\<open>TypeError\<close> and no email is sent.
\<close>
theorem email_cycle_raises:
  "fst (main (demo_env\<lparr>arg_imminent := True, arg_email := True\<rparr>) (initial_state []))
     = Raised TypeError
   \<and> imminent_slots (snd (main (demo_env\<lparr>arg_imminent := True, arg_email := True\<rparr>)
        (initial_state [])))
       = [[PSet {''Sunday, June 01, 2025''}, PSet {''09:30''}, PStr ''Dr Martin''],
          [PSet {''Sunday, June 01, 2025''}, PSet {''14:00''}, PStr ''Dr Martin'']]
   \<and> sent_mails (trace (snd (main (demo_env\<lparr>arg_imminent := True, arg_email := True\<rparr>)
        (initial_state [])))) = []"
  by (simp add: demo_email_cycle)

text \<open>
  Claim C7 as stated fails. The script is started on 1 June 2025 and midnight passes
  before the second call of \<^verbatim>\<open>main\<close>: the record that call builds has
  \<^verbatim>\<open>start_date=2025-06-01\<close>, while today's date is 2 June 2025, so its URL is not the
  URL the specification describes.
\<close>
theorem stale_start_date_counterexample:
  "demo_clock 1 = ''2025-06-02''
   \<and> fst (run_script demo_clock demo_env 2 (initial_state [])) = Normal
   \<and> doctor_info (snd (run_script demo_clock demo_env 2 (initial_state [])))
       = [(''101'',
           ''https://www.doctolib.fr/availabilities.json?start_date=2025-06-01&visit_motive_ids=7&agenda_ids=11&practice_ids=21&limit=15'')]
   \<and> spec_availability_url demo_env (demo_clock 1) (JInt 7) (JInt 11) (JInt 21)
       = ''https://www.doctolib.fr/availabilities.json?start_date=2025-06-02&visit_motive_ids=7&agenda_ids=11&practice_ids=21&limit=15''
   \<and> doctor_info (snd (run_script demo_clock demo_env 2 (initial_state [])))
       \<noteq> [(''101'', spec_availability_url demo_env (demo_clock 1) (JInt 7) (JInt 11) (JInt 21))]"
proof -
  have g: "load_globals (demo_clock 0) demo_env = demo_env"
    by (simp add: load_globals_def demo_clock_def demo_env_def)
  have r: "run_script demo_clock demo_env 2 (initial_state []) =
     (Normal,
      prepend (trace (snd (main demo_env (initial_state []))))
        (snd (main demo_env (initial_state []))))"
    by (simp only: run_script_def g demo_second_cycle)
  have n: "show_nat 7 = ''7''" "show_nat 11 = ''11''" "show_nat 21 = ''21''"
    by (simp_all add: show_nat.simps digit_char_def)
  have s: "spec_availability_url demo_env (demo_clock 1) (JInt 7) (JInt 11) (JInt 21)
       = ''https://www.doctolib.fr/availabilities.json?start_date=2025-06-02&visit_motive_ids=7&agenda_ids=11&practice_ids=21&limit=15''"
    using n by (simp add: spec_availability_url_def demo_clock_def py_str_def show_int_def)
  have d: "doctor_info (snd (run_script demo_clock demo_env 2 (initial_state [])))
       = [(''101'',
           ''https://www.doctolib.fr/availabilities.json?start_date=2025-06-01&visit_motive_ids=7&agenda_ids=11&practice_ids=21&limit=15'')]"
    by (simp add: r demo_cycle avail_url_def)
  have c: "demo_clock 1 = ''2025-06-02''"
    by (simp add: demo_clock_def)
  show ?thesis
    unfolding s d using c by (simp add: r)
qed

end
